theory Spec2Isabelle
  imports Main "HOL-Library.Word" "HOL-Library.Sublist"
begin

unbundle bit_operations_syntax

chapter \<open>Delta Chat core: armor codec, group resolver, ingestion, wake lock\<close>

text \<open>
  A shallow embedding of \<^verbatim>\<open>dc_split_armored_data\<close> (dc_pgp.c) and of
  \<^verbatim>\<open>extract_grpid_from_messageid\<close>, \<^verbatim>\<open>lookup_group_by_grpid__\<close>,
  \<^verbatim>\<open>receive_imf\<close>, \<^verbatim>\<open>mrmailbox_wake_lock\<close> and \<^verbatim>\<open>mrmailbox_wake_unlock\<close>
  (mrmailbox.c). C strings are HOL strings without the terminating NUL, a pointer that may
  be NULL is an \<open>option\<close>, the SQLite tables are lists of rows, and every call of the
  mailbox callback \<^verbatim>\<open>m_cb\<close> is appended to a log kept in the mailbox. A C name that
  ends in two underscores (the function is to be called with the database locked) has
  them written \<open>_locked\<close>.
\<close>

section \<open>C library functions on strings\<close>

text \<open>\<^verbatim>\<open>tolower\<close> in the C locale: only the 26 ASCII capitals change.\<close>

definition tolower_c :: "char \<Rightarrow> char" where
  "tolower_c c =
     (case map_of (zip ''ABCDEFGHIJKLMNOPQRSTUVWXYZ'' ''abcdefghijklmnopqrstuvwxyz'') c of
        Some l \<Rightarrow> l
      | None \<Rightarrow> c)"

text \<open>\<^verbatim>\<open>strcasecmp(a, b) == 0\<close>.\<close>

definition strcasecmp_eq :: "string \<Rightarrow> string \<Rightarrow> bool" where
  "strcasecmp_eq a b = (map tolower_c a = map tolower_c b)"

text \<open>
  \<^verbatim>\<open>strncmp(a, b, n) == 0\<close>: the first \<open>n\<close> characters agree, the end of a string
  counting as a character of its own.
\<close>

definition strncmp_eq :: "string \<Rightarrow> string \<Rightarrow> nat \<Rightarrow> bool" where
  "strncmp_eq a b n = (take n a = take n b)"

text \<open>\<^verbatim>\<open>strspn(s, accept)\<close>: the length of the longest prefix made of accepted characters.\<close>

definition strspn :: "string \<Rightarrow> string \<Rightarrow> nat" where
  "strspn s accept = length (takeWhile (\<lambda>c. c \<in> set accept) s)"

text \<open>\<^verbatim>\<open>strchr(s, c)\<close> as the offset of the first \<open>c\<close>, \<open>None\<close> for NULL.\<close>

definition strchr :: "string \<Rightarrow> char \<Rightarrow> nat option" where
  "strchr s c = (if c \<in> set s then Some (length (takeWhile (\<lambda>d. d \<noteq> c) s)) else None)"

text \<open>\<^verbatim>\<open>strstr(haystack, needle)\<close> as the offset of the first occurrence.\<close>

fun strstr :: "string \<Rightarrow> string \<Rightarrow> nat option" where
  "strstr [] needle = (if needle = [] then Some 0 else None)"
| "strstr (c # cs) needle =
     (if prefix needle (c # cs) then Some 0
      else (case strstr cs needle of None \<Rightarrow> None | Some i \<Rightarrow> Some (Suc i)))"

text \<open>\<^verbatim>\<open>isspace\<close> in the C locale: space, \<^verbatim>\<open>\t \n \v \f \r\<close>.\<close>

definition isspace_c :: "char \<Rightarrow> bool" where
  "isspace_c c = (c \<in> set [CHR 0x20, CHR 0x09, CHR 0x0A, CHR 0x0B, CHR 0x0C, CHR 0x0D])"

section \<open>The armor codec (dc\_pgp.c)\<close>

text \<open>
  Modelled from the spec: \<^verbatim>\<open>dc_remove_cr_chars\<close>, whose source is not part of the
  files at hand. The spec: the codec "normalises by removing carriage returns".
\<close>

definition dc_remove_cr_chars :: "string \<Rightarrow> string" where
  "dc_remove_cr_chars buf = filter (\<lambda>c. c \<noteq> CHR 0x0D) buf"

text \<open>
  Modelled from the spec: \<^verbatim>\<open>dc_trim\<close>, whose source is not part of the files at hand.
  It removes the white space at both ends of the string it is given (the spec's armor
  scenario has \<^verbatim>\<open>Autocrypt-Prefer-Encrypt: mutual\<close> yield \<^verbatim>\<open>mutual\<close>). It writes
  only between the pointer it gets and that string's terminating NUL.
\<close>

definition dc_trim :: "string \<Rightarrow> string" where
  "dc_trim s = rev (dropWhile isspace_c (rev (dropWhile isspace_c s)))"

text \<open>The macro \<^verbatim>\<open>PGP_WS\<close>: tab, carriage return, line feed, space.\<close>

definition PGP_WS :: string where
  "PGP_WS = [CHR 0x09, CHR 0x0D, CHR 0x0A, CHR 0x20]"

text \<open>
  The out-parameters of \<^verbatim>\<open>dc_split_armored_data\<close> that the scan loop fills. Each is a
  pointer into the buffer; the model keeps the string it points to. The loop writes only
  inside the line it is processing (the NUL over the line feed, the NUL over the colon,
  \<^verbatim>\<open>dc_trim\<close> on a part of the line), so a string stored for an earlier line is not
  changed by a later one.
\<close>

record armor_slices =
  headerline :: "string option"
  setupcodebegin :: "string option"
  preferencrypt :: "string option"

definition no_slices :: armor_slices where
  "no_slices = \<lparr>headerline = None, setupcodebegin = None, preferencrypt = None\<rparr>"

text \<open>
  The test of a candidate header line, after \<^verbatim>\<open>dc_trim(line)\<close>:
  \<^verbatim>\<open>strncmp(line, "-----BEGIN ", 11)==0 && strncmp(&line[strlen(line)-5], "-----", 5)==0\<close>.
  The second comparison is only evaluated when the first holds, so the line has at least
  11 characters and \<^verbatim>\<open>strlen(line)-5\<close> does not wrap.
\<close>

definition is_headerline :: "string \<Rightarrow> bool" where
  "is_headerline line =
     (strncmp_eq line ''-----BEGIN '' 11 \<and>
      strncmp_eq (drop (length line - 5) line) ''-----'' 5)"

text \<open>
  What the loop does with a complete line once the header line is known and the line is
  neither blank nor colon-free: \<^verbatim>\<open>*p2 = 0; dc_trim(line)\<close> and the two
  \<^verbatim>\<open>strcasecmp\<close> tests. \<open>i\<close> is the offset of the first colon.
\<close>

definition armor_header :: "string \<Rightarrow> nat \<Rightarrow> armor_slices \<Rightarrow> armor_slices" where
  "armor_header line i st =
     (let name = dc_trim (take i line); p2 = dc_trim (drop (Suc i) line)
      in if strcasecmp_eq name ''Passphrase-Begin'' then st\<lparr>setupcodebegin := Some p2\<rparr>
         else if strcasecmp_eq name ''Autocrypt-Prefer-Encrypt'' then st\<lparr>preferencrypt := Some p2\<rparr>
         else st)"

text \<open>
  The loop \<^verbatim>\<open>while (*p1)\<close>. The first argument is the text from \<open>p1\<close> on, the second
  the characters of the current line read so far (\<^verbatim>\<open>line[0 .. line_chars-1]\<close>). The
  result is the slices and \<^verbatim>\<open>base64\<close>: \<open>None\<close> when the loop runs off the end of the
  buffer, else the text from the \<^verbatim>\<open>base64\<close> pointer to the end of the buffer. A last
  line without line feed is never looked at.
\<close>

fun armor_scan :: "string \<Rightarrow> string \<Rightarrow> armor_slices \<Rightarrow> armor_slices \<times> string option" where
  "armor_scan [] line st = (st, None)"
| "armor_scan (c # p1) line st =
     (if c = CHR 0x0A then
        (if headerline st = None then
           (let l = dc_trim line
            in armor_scan p1 [] (if is_headerline l then st\<lparr>headerline := Some l\<rparr> else st))
         else if strspn line PGP_WS = length line then (st, Some p1)
         else (case strchr line (CHR '':'') of
                 None \<Rightarrow> (st, Some (line @ c # p1))
               | Some i \<Rightarrow> armor_scan p1 [] (armor_header line i st)))
      else armor_scan p1 (line @ [c]) st)"

text \<open>The values the function leaves behind its four out-pointers, and its return value.\<close>

record armor_result =
  success :: bool
  ret_headerline :: "string option"
  ret_setupcodebegin :: "string option"
  ret_preferencrypt :: "string option"
  ret_base64 :: "string option"

definition armor_failed :: "armor_slices \<Rightarrow> armor_result" where
  "armor_failed st =
     \<lparr>success = False, ret_headerline = headerline st,
      ret_setupcodebegin = setupcodebegin st, ret_preferencrypt = preferencrypt st,
      ret_base64 = None\<rparr>"

text \<open>
  The part after the loop: \<^verbatim>\<open>-----END \<close> is searched from \<^verbatim>\<open>base64\<close> on, the text
  after it is compared with the header line from its 12th character on, over the whole
  length of that rest (\<^verbatim>\<open>strncmp(p1+9, headerline+11, strlen(headerline+11))\<close>); then
  the buffer is cut at \<^verbatim>\<open>p1\<close> and \<^verbatim>\<open>base64\<close> is trimmed. Nothing tests whether the
  trimmed text is empty.
\<close>

definition armor_finish :: "armor_slices \<times> string option \<Rightarrow> armor_result" where
  "armor_finish r =
     (case r of (st, b) \<Rightarrow>
        (case headerline st of
           None \<Rightarrow> armor_failed st
         | Some h \<Rightarrow>
            (case b of
               None \<Rightarrow> armor_failed st
             | Some base64 \<Rightarrow>
                (case strstr base64 ''-----END '' of
                   None \<Rightarrow> armor_failed st
                 | Some i \<Rightarrow>
                    if \<not> strncmp_eq (drop (i + 9) base64) (drop 11 h) (length (drop 11 h))
                    then armor_failed st
                    else \<lparr>success = True, ret_headerline = Some h,
                          ret_setupcodebegin = setupcodebegin st,
                          ret_preferencrypt = preferencrypt st,
                          ret_base64 = Some (dc_trim (take i base64))\<rparr>))))"

text \<open>
  \<^verbatim>\<open>dc_split_armored_data\<close>. \<open>buf\<close> is \<open>None\<close> for a NULL buffer;
  \<open>have_ret_headerline\<close> says whether \<^verbatim>\<open>ret_headerline\<close> is non-NULL (the other three
  out-pointers may be NULL: the value is then not stored, nothing else changes). The
  buffer is a C string, so its text ends at the first NUL.
\<close>

definition dc_split_armored_data :: "string option \<Rightarrow> bool \<Rightarrow> armor_result" where
  "dc_split_armored_data buf have_ret_headerline =
     (case buf of
        None \<Rightarrow> armor_failed no_slices
      | Some b \<Rightarrow>
         if \<not> have_ret_headerline then armor_failed no_slices
         else armor_finish
                (armor_scan (dc_remove_cr_chars (takeWhile (\<lambda>c. c \<noteq> CHR 0x00) b)) [] no_slices))"

subsection \<open>The armored text, line by line\<close>

text \<open>
  The text of the buffer as the scan sees it: the complete lines (each ended by a line
  feed, which is not part of the line) and the rest after the last line feed. The first
  argument is the text still to be read, the second the line read so far. With
  \<open>body_of\<close> and \<open>armor_lines\<close> below this is the spec's reading of the codec, "a
  line-oriented scan" in which "a blank line terminates headers; a header line without
  \<^verbatim>\<open>:\<close> also terminates headers and is itself the first base64 line"; the scan of
  the code is compared with it in the properties.
\<close>

fun lines_from :: "string \<Rightarrow> string \<Rightarrow> string list" where
  "lines_from [] line = []"
| "lines_from (c # p) line =
     (if c = CHR 0x0A then line # lines_from p [] else lines_from p (line @ [c]))"

fun tail_from :: "string \<Rightarrow> string \<Rightarrow> string" where
  "tail_from [] line = line"
| "tail_from (c # p) line = (if c = CHR 0x0A then tail_from p [] else tail_from p (line @ [c]))"

text \<open>The text that a list of complete lines and a rest stand for.\<close>

definition unlines_lf :: "string list \<Rightarrow> string \<Rightarrow> string" where
  "unlines_lf ls rest = concat (map (\<lambda>l. l @ [CHR 0x0A]) ls) @ rest"

text \<open>
  Where the body starts, given the lines after the header line: after the first blank
  line, or at the first line without a colon, whichever comes first; a line with a colon
  is an armor header. \<open>None\<close> when the lines run out before.
\<close>

fun body_of :: "string list \<Rightarrow> string \<Rightarrow> string option" where
  "body_of [] rest = None"
| "body_of (l # ls) rest =
     (if strspn l PGP_WS = length l then Some (unlines_lf ls rest)
      else if CHR '':'' \<notin> set l then Some (unlines_lf (l # ls) rest)
      else body_of ls rest)"

text \<open>
  The header line and the start of the body, read off the lines: the header line is the
  first complete line that, trimmed, passes the BEGIN test.
\<close>

definition armor_lines :: "string list \<Rightarrow> string \<Rightarrow> string option \<times> string option" where
  "armor_lines ls rest =
     (case dropWhile (\<lambda>l. \<not> is_headerline (dc_trim l)) ls of
        [] \<Rightarrow> (None, None)
      | l # after \<Rightarrow> (Some (dc_trim l), body_of after rest))"

section \<open>The mailbox (mrmailbox.c)\<close>

text \<open>The events the code passes to the callback \<^verbatim>\<open>m_cb\<close>.\<close>

datatype event =
    MR_EVENT_MSGS_CHANGED
  | MR_EVENT_INCOMING_MSG
  | MR_EVENT_MSG_READ
  | MR_EVENT_CHAT_MODIFIED
  | MR_EVENT_WAKE_LOCK

text \<open>
  One call \<^verbatim>\<open>m_cb(mailbox, event, data1, data2)\<close>, with what the caller held at that
  moment: the database lock, an open transaction.
\<close>

record cb_call =
  cb_event :: event
  cb_data1 :: nat
  cb_data2 :: nat
  cb_locked :: bool
  cb_in_transaction :: bool

text \<open>
  Macros and collaborators of mrmailbox.c whose definitions are not in the files at hand.
  The constants are parameters: every theorem below holds for each choice of them, unless
  it names a value (the spec gives \<^verbatim>\<open>MR_VALID_ID_LEN\<close> as 11). The functions are the
  collaborators the spec puts out of scope (header decoding, the smeared clock, message-id
  synthesis, the summary text, libetpan's message-id parser); \<open>uninit_check_self\<close> is the
  indeterminate value of the uninitialised local \<^verbatim>\<open>check_self\<close> of
  \<^verbatim>\<open>receive_imf\<close>, read when the From list holds no mailbox.
\<close>

datatype mr_msg_type = MR_MSG_UNDEFINED | MR_MSG_TEXT | MR_MSG_IMAGE | MR_MSG_GIF
  | MR_MSG_AUDIO | MR_MSG_VOICE | MR_MSG_VIDEO | MR_MSG_FILE

record mr_env =
  MR_VALID_ID_LEN :: nat
  MR_CHAT_ID_DEADDROP :: nat
  MR_CHAT_ID_TO_DEADDROP :: nat
  MR_CHAT_ID_TRASH :: nat
  MR_CHAT_ID_LAST_SPECIAL :: nat
  MR_CONTACT_ID_SELF :: nat
  MR_CONTACT_ID_LAST_SPECIAL :: nat
  MR_IMAP_SEEN :: "32 word"
  MR_MDNS_DEFAULT_ENABLED :: int
  MR_INVALID_TIMESTAMP :: int
  MR_GHOST_ID_FORMAT :: "nat \<Rightarrow> string"
  mr_decode_header_string :: "string \<Rightarrow> string"
  mr_normalize_name :: "string \<Rightarrow> string"
  mr_smeared_time_locked :: int
  mr_create_smeared_timestamp_locked :: int
  mr_create_incoming_rfc724_mid :: "int \<Rightarrow> nat \<Rightarrow> nat list \<Rightarrow> string option"
  mrmsg_get_summarytext_by_raw :: "mr_msg_type \<Rightarrow> string option \<Rightarrow> string \<Rightarrow> string"
  mailimf_msg_id_parse :: "string \<Rightarrow> string option"
  uninit_check_self :: bool

subsection \<open>The parsed message\<close>

text \<open>
  libetpan's header structures, as far as the code reads them. A pointer the code tests
  for NULL is an \<open>option\<close>. The name of an optional field and the address of a mailbox
  are plain strings: \<^verbatim>\<open>receive_imf\<close> and \<^verbatim>\<open>add_or_lookup_contact_by_addr__\<close> pass them
  to \<^verbatim>\<open>strcasecmp\<close> unchecked. For an address group, \<open>None\<close> stands for a NULL group
  as well as for a NULL \<^verbatim>\<open>grp_mb_list\<close>: the code skips both.
\<close>

record mailimf_optional_field =
  fld_name :: string
  fld_value :: "string option"

record mailimf_mailbox =
  mb_display_name :: "string option"
  mb_addr_spec :: string

datatype mailimf_address =
    MAILIMF_ADDRESS_MAILBOX "mailimf_mailbox option"
  | MAILIMF_ADDRESS_GROUP "mailimf_mailbox option list option"

datatype mailimf_field =
    MAILIMF_FIELD_RETURN_PATH
  | MAILIMF_FIELD_ORIG_DATE "int option"
  | MAILIMF_FIELD_FROM "mailimf_mailbox option list option"
  | MAILIMF_FIELD_TO "mailimf_address option list option"
  | MAILIMF_FIELD_CC "mailimf_address option list option"
  | MAILIMF_FIELD_BCC "mailimf_address option list option"
  | MAILIMF_FIELD_MESSAGE_ID "string option option"
  | MAILIMF_FIELD_IN_REPLY_TO "string option list option option"
  | MAILIMF_FIELD_REFERENCES "string option list option option"
  | MAILIMF_FIELD_OPTIONAL_FIELD "mailimf_optional_field option"
  | MAILIMF_FIELD_OTHER

text \<open>
  For \<^verbatim>\<open>MAILIMF_FIELD_ORIG_DATE\<close> the argument is \<^verbatim>\<open>mr_timestamp_from_date\<close> of the
  date, \<open>None\<close> for a NULL \<^verbatim>\<open>fld_orig_date\<close>. For \<^verbatim>\<open>MAILIMF_FIELD_MESSAGE_ID\<close> the
  outer \<open>option\<close> is \<^verbatim>\<open>fld_message_id\<close>, the inner one \<^verbatim>\<open>mid_value\<close>; for
  \<^verbatim>\<open>IN_REPLY_TO\<close> and \<^verbatim>\<open>REFERENCES\<close> the outer \<open>option\<close> is the field's structure, the
  next one \<^verbatim>\<open>mid_list\<close>, and each entry of the list may be NULL.
\<close>

text \<open>One MIME part as the parser yields it (\<^verbatim>\<open>mrmimepart_t\<close>).\<close>

record mrmimepart =
  m_type :: mr_msg_type
  m_msg :: "string option"
  m_msg_raw :: string
  m_param :: string
  m_bytes :: nat

text \<open>
  What \<^verbatim>\<open>receive_imf\<close> reads of one entry of \<^verbatim>\<open>m_reports\<close>: the value of the
  \<^verbatim>\<open>report-type\<close> parameter (\<open>None\<close> when the parameter or its value is NULL), the
  number of sub-parts, and the second sub-part: whether its content type is the composite
  type \<^verbatim>\<open>message\<close>, its subtype, and the header fields \<^verbatim>\<open>Disposition\<close> and
  \<^verbatim>\<open>Original-Message-ID\<close> of its decoded and re-parsed body (\<open>rd_fields = None\<close> when
  decoding or parsing fails or finds no header).
\<close>

record report_data =
  rd_is_message :: bool
  rd_subtype :: string
  rd_fields :: "(string option \<times> string option) option"

record mailmime_report =
  report_type :: "string option"
  mp_count :: nat
  mp_second :: "report_data option"

text \<open>The parser's result (\<^verbatim>\<open>mrmimeparser_t\<close>); \<open>m_header = None\<close> when parsing found no header.\<close>

record mrmimeparser =
  m_header :: "mailimf_field option list option"
  m_parts :: "mrmimepart list"
  m_reports :: "mailmime_report option list"
  m_is_send_by_messenger :: bool
  m_subject :: "string option"

subsection \<open>The database\<close>

datatype chat_type = MR_CHAT_NORMAL | MR_CHAT_GROUP

datatype msg_state = MR_STATE_UNDEFINED | MR_IN_FRESH | MR_IN_SEEN
  | MR_OUT_PENDING | MR_OUT_DELIVERED | MR_OUT_READ | MR_OUT_ERROR

text \<open>
  The origins \<^verbatim>\<open>receive_imf\<close> uses, and their rank. Modelled from the spec: the values
  of the \<^verbatim>\<open>MR_ORIGIN_*\<close> macros are not in the files at hand; the spec orders them
  \<^verbatim>\<open>INCOMING_UNKNOWN_FROM < INCOMING_CC < INCOMING_TO < INCOMING_REPLY_TO < OUTGOING_BCC
  < OUTGOING_CC < OUTGOING_TO\<close>.
\<close>

datatype origin = MR_ORIGIN_INCOMING_UNKNOWN_FROM | MR_ORIGIN_INCOMING_CC
  | MR_ORIGIN_INCOMING_TO | MR_ORIGIN_INCOMING_REPLY_TO | MR_ORIGIN_OUTGOING_BCC
  | MR_ORIGIN_OUTGOING_CC | MR_ORIGIN_OUTGOING_TO

fun origin_rank :: "origin \<Rightarrow> nat" where
  "origin_rank MR_ORIGIN_INCOMING_UNKNOWN_FROM = 1"
| "origin_rank MR_ORIGIN_INCOMING_CC = 2"
| "origin_rank MR_ORIGIN_INCOMING_TO = 3"
| "origin_rank MR_ORIGIN_INCOMING_REPLY_TO = 4"
| "origin_rank MR_ORIGIN_OUTGOING_BCC = 5"
| "origin_rank MR_ORIGIN_OUTGOING_CC = 6"
| "origin_rank MR_ORIGIN_OUTGOING_TO = 7"

text \<open>
  The tables, with the columns the SQL statements of mrmailbox.c name
  (\<^verbatim>\<open>chats(id, type, name, grpid)\<close>, \<^verbatim>\<open>chats_contacts(chat_id, contact_id)\<close>,
  \<^verbatim>\<open>msgs(...)\<close>) and the spec's schema for the rest.
\<close>

record chat_row =
  c_id :: nat
  c_type :: chat_type
  c_name :: string
  c_grpid :: string

record contact_row =
  ct_id :: nat
  ct_name :: string
  ct_addr :: string
  ct_origin :: origin
  ct_blocked :: bool

record msg_row =
  msg_id :: nat
  msg_rfc724_mid :: string
  msg_server_folder :: string
  msg_server_uid :: nat
  msg_chat_id :: nat
  msg_from_id :: nat
  msg_to_id :: nat
  msg_timestamp :: int
  msg_type :: mr_msg_type
  msg_state :: msg_state
  msg_msgrmsg :: bool
  msg_txt :: string
  msg_txt_raw :: string
  msg_param :: string
  msg_bytes :: nat

record sql_tables =
  chats :: "chat_row list"
  chats_contacts :: "(nat \<times> nat) list"
  contacts :: "contact_row list"
  msgs :: "msg_row list"
  leftgrps :: "string list"
  config :: "(string \<times> string) list"

text \<open>
  The mailbox as \<^verbatim>\<open>receive_imf\<close> sees it: the tables, whether the database lock is held,
  the tables as they were when the open transaction began (\<open>None\<close> when no transaction is
  open), and the calls of the callback so far, oldest first.
\<close>

record mrmailbox =
  m_sql :: sql_tables
  m_locked :: bool
  m_transaction :: "sql_tables option"
  m_cb_log :: "cb_call list"

text \<open>A call \<^verbatim>\<open>mailbox->m_cb(mailbox, event, data1, data2)\<close>.\<close>

definition m_cb :: "mrmailbox \<Rightarrow> event \<Rightarrow> nat \<Rightarrow> nat \<Rightarrow> mrmailbox" where
  "m_cb mailbox ev d1 d2 =
     mailbox\<lparr>m_cb_log := m_cb_log mailbox @
       [\<lparr>cb_event = ev, cb_data1 = d1, cb_data2 = d2, cb_locked = m_locked mailbox,
         cb_in_transaction = (m_transaction mailbox \<noteq> None)\<rparr>]\<rparr>"

text \<open>
  Modelled from the spec: the persistence facade's \<^verbatim>\<open>lock\<close>, \<^verbatim>\<open>unlock\<close>,
  \<^verbatim>\<open>begin\<close>, \<^verbatim>\<open>commit\<close> and \<^verbatim>\<open>rollback\<close> (mrsqlite3.c is not in the files at hand).
  The spec: "the facade must guarantee atomicity of an entire ingestion (all inserts or
  none)"; a rollback gives back the tables as they were at \<^verbatim>\<open>begin\<close>.
\<close>

definition mrsqlite3_lock :: "mrmailbox \<Rightarrow> mrmailbox" where
  "mrsqlite3_lock ths = ths\<lparr>m_locked := True\<rparr>"

definition mrsqlite3_unlock :: "mrmailbox \<Rightarrow> mrmailbox" where
  "mrsqlite3_unlock ths = ths\<lparr>m_locked := False\<rparr>"

definition mrsqlite3_begin_transaction_locked :: "mrmailbox \<Rightarrow> mrmailbox" where
  "mrsqlite3_begin_transaction_locked ths = ths\<lparr>m_transaction := Some (m_sql ths)\<rparr>"

definition mrsqlite3_commit_locked :: "mrmailbox \<Rightarrow> mrmailbox" where
  "mrsqlite3_commit_locked ths = ths\<lparr>m_transaction := None\<rparr>"

definition mrsqlite3_rollback_locked :: "mrmailbox \<Rightarrow> mrmailbox" where
  "mrsqlite3_rollback_locked ths =
     (case m_transaction ths of
        None \<Rightarrow> ths
      | Some old \<Rightarrow> ths\<lparr>m_sql := old, m_transaction := None\<rparr>)"

text \<open>
  Modelled from the spec: \<^verbatim>\<open>mrsqlite3_get_config__\<close> and
  \<^verbatim>\<open>mrsqlite3_get_config_int__\<close> (\<^verbatim>\<open>get_config\<close> and its typed integer variant, which
  "coerces string to int"): the value stored under the key, the default when there is none.
  The coercion is C's \<^verbatim>\<open>atol\<close>: white space, an optional sign, decimal digits.
\<close>

definition mrsqlite3_get_config_locked :: "sql_tables \<Rightarrow> string \<Rightarrow> string \<Rightarrow> string" where
  "mrsqlite3_get_config_locked sql key def =
     (case map_of (config sql) key of None \<Rightarrow> def | Some v \<Rightarrow> v)"

definition digit_val :: "char \<Rightarrow> nat option" where
  "digit_val c = map_of (zip ''0123456789'' [0, 1, 2, 3, 4, 5, 6, 7, 8, 9]) c"

fun atol_digits :: "string \<Rightarrow> int \<Rightarrow> int" where
  "atol_digits [] acc = acc"
| "atol_digits (c # cs) acc =
     (case digit_val c of None \<Rightarrow> acc | Some d \<Rightarrow> atol_digits cs (10 * acc + int d))"

definition atol_c :: "string \<Rightarrow> int" where
  "atol_c s =
     (case dropWhile isspace_c s of
        [] \<Rightarrow> 0
      | c # cs \<Rightarrow>
         if c = CHR ''-'' then - atol_digits cs 0
         else if c = CHR ''+'' then atol_digits cs 0
         else atol_digits (c # cs) 0)"

definition mrsqlite3_get_config_int_locked :: "sql_tables \<Rightarrow> string \<Rightarrow> int \<Rightarrow> int" where
  "mrsqlite3_get_config_int_locked sql key def =
     (case map_of (config sql) key of None \<Rightarrow> def | Some v \<Rightarrow> atol_c v)"

text \<open>
  \<^verbatim>\<open>sqlite3_last_insert_rowid\<close> after an INSERT into a table with an integer primary
  key: one more than the largest id in the table.
\<close>

definition new_rowid :: "nat list \<Rightarrow> nat" where
  "new_rowid ids = Suc (fold max ids 0)"

text \<open>
  Modelled from the spec: the facade's \<^verbatim>\<open>is_contact_in_chat\<close>,
  \<^verbatim>\<open>group_is_explicitly_left\<close>, \<^verbatim>\<open>add_contact_to_chat\<close>, \<^verbatim>\<open>chat_contact_count\<close> and
  \<^verbatim>\<open>contact_addr_equals\<close> (mrchat.c and mrcontact.c are not in the files at hand).
  \<^verbatim>\<open>chats_contacts\<close> holds each pair once (the spec: "unique pair"), so adding a pair
  that is there changes nothing; \<^verbatim>\<open>leftgrps\<close> is the set of group ids the user has left;
  an address is compared as everywhere in the code, with \<^verbatim>\<open>strcasecmp\<close>.
\<close>

definition mrmailbox_is_contact_in_chat_locked :: "mrmailbox \<Rightarrow> nat \<Rightarrow> nat \<Rightarrow> bool" where
  "mrmailbox_is_contact_in_chat_locked mailbox chat_id contact_id =
     ((chat_id, contact_id) \<in> set (chats_contacts (m_sql mailbox)))"

definition mrmailbox_group_explicitly_left_locked :: "mrmailbox \<Rightarrow> string \<Rightarrow> bool" where
  "mrmailbox_group_explicitly_left_locked mailbox grpid = (grpid \<in> set (leftgrps (m_sql mailbox)))"

definition mrmailbox_add_contact_to_chat_locked :: "mrmailbox \<Rightarrow> nat \<Rightarrow> nat \<Rightarrow> mrmailbox" where
  "mrmailbox_add_contact_to_chat_locked mailbox chat_id contact_id =
     (if (chat_id, contact_id) \<in> set (chats_contacts (m_sql mailbox)) then mailbox
      else mailbox\<lparr>m_sql := (m_sql mailbox)
             \<lparr>chats_contacts := chats_contacts (m_sql mailbox) @ [(chat_id, contact_id)]\<rparr>\<rparr>)"

definition mrmailbox_get_chat_contact_count_locked :: "mrmailbox \<Rightarrow> nat \<Rightarrow> nat" where
  "mrmailbox_get_chat_contact_count_locked mailbox chat_id =
     length (filter (\<lambda>p. fst p = chat_id) (chats_contacts (m_sql mailbox)))"

definition mrmailbox_contact_addr_equals_locked :: "mrmailbox \<Rightarrow> nat \<Rightarrow> string \<Rightarrow> bool" where
  "mrmailbox_contact_addr_equals_locked mailbox contact_id other_addr =
     (case find (\<lambda>r. ct_id r = contact_id) (contacts (m_sql mailbox)) of
        None \<Rightarrow> False
      | Some r \<Rightarrow> strcasecmp_eq (ct_addr r) other_addr)"

subsection \<open>Group ids\<close>

text \<open>
  \<^verbatim>\<open>extract_grpid_from_messageid\<close>. The three character tests are only reached when
  the string has at least 8 characters.
\<close>

definition extract_grpid_from_messageid :: "mr_env \<Rightarrow> string option \<Rightarrow> string option" where
  "extract_grpid_from_messageid E mid =
     (case mid of
        None \<Rightarrow> None
      | Some m \<Rightarrow>
         if length m < 8 \<or> m ! 0 \<noteq> CHR ''G'' \<or> m ! 1 \<noteq> CHR ''r'' \<or> m ! 2 \<noteq> CHR ''.''
         then None
         else (let ret = drop 3 m
               in case strchr ret (CHR ''.'') of
                    None \<Rightarrow> None
                  | Some p1 \<Rightarrow>
                     if length (take p1 ret) \<noteq> MR_VALID_ID_LEN E then None
                     else Some (take p1 ret)))"

text \<open>\<^verbatim>\<open>get_first_grpid_from_char_clist\<close>: the first entry that yields a group id.\<close>

fun first_grpid :: "mr_env \<Rightarrow> string option list \<Rightarrow> string option" where
  "first_grpid E [] = None"
| "first_grpid E (mid # cur) =
     (case extract_grpid_from_messageid E mid of
        Some grpid \<Rightarrow> Some grpid
      | None \<Rightarrow> first_grpid E cur)"

definition get_first_grpid_from_char_clist ::
  "mr_env \<Rightarrow> string option list option \<Rightarrow> string option" where
  "get_first_grpid_from_char_clist E list =
     (case list of None \<Rightarrow> None | Some l \<Rightarrow> first_grpid E l)"

text \<open>
  Modelled from the spec: \<^verbatim>\<open>safe_strdup\<close> (mrtools.c is not in the files at hand): a
  copy of the string, the empty string for NULL, never NULL.
\<close>

definition safe_strdup :: "string option \<Rightarrow> string" where
  "safe_strdup s = (case s of None \<Rightarrow> [] | Some x \<Rightarrow> x)"

text \<open>The locals of \<^verbatim>\<open>lookup_group_by_grpid__\<close> that the walk over the header fills.\<close>

record grp_locals =
  grpid1 :: "string option"
  grpid2 :: "string option"
  grpid3 :: "string option"
  grpid4 :: "string option"
  grpname :: "string option"
  X_MrRemoveFromGrp :: "string option"
  X_MrAddToGrp :: "string option"
  X_MrGrpNameChanged :: bool

definition grp_locals_init :: grp_locals where
  "grp_locals_init =
     \<lparr>grpid1 = None, grpid2 = None, grpid3 = None, grpid4 = None, grpname = None,
      X_MrRemoveFromGrp = None, X_MrAddToGrp = None, X_MrGrpNameChanged = False\<rparr>"

text \<open>
  The body of the \<^verbatim>\<open>for\<close> loop over \<^verbatim>\<open>fld_list\<close>, for one field. A later field of
  the same kind overwrites what an earlier one has set. \<^verbatim>\<open>mr_decode_header_string\<close>
  gives NULL for NULL.
\<close>

definition grp_optional_field :: "mr_env \<Rightarrow> mailimf_optional_field \<Rightarrow> grp_locals \<Rightarrow> grp_locals" where
  "grp_optional_field E f g =
     (if strcasecmp_eq (fld_name f) ''X-MrGrpId'' \<or> strcasecmp_eq (fld_name f) ''Chat-Group-ID''
      then g\<lparr>grpid1 := Some (safe_strdup (fld_value f))\<rparr>
      else if strcasecmp_eq (fld_name f) ''X-MrGrpName'' \<or>
              strcasecmp_eq (fld_name f) ''Chat-Group-Name''
      then g\<lparr>grpname := map_option (mr_decode_header_string E) (fld_value f)\<rparr>
      else if strcasecmp_eq (fld_name f) ''X-MrRemoveFromGrp'' \<or>
              strcasecmp_eq (fld_name f) ''Chat-Group-Member-Removed''
      then g\<lparr>X_MrRemoveFromGrp := fld_value f\<rparr>
      else if strcasecmp_eq (fld_name f) ''X-MrAddToGrp'' \<or>
              strcasecmp_eq (fld_name f) ''Chat-Group-Member-Added''
      then g\<lparr>X_MrAddToGrp := fld_value f\<rparr>
      else if strcasecmp_eq (fld_name f) ''X-MrGrpNameChanged'' \<or>
              strcasecmp_eq (fld_name f) ''Chat-Group-Name-Changed''
      then g\<lparr>X_MrGrpNameChanged := True\<rparr>
      else g)"

fun grp_field :: "mr_env \<Rightarrow> mailimf_field option \<Rightarrow> grp_locals \<Rightarrow> grp_locals" where
  "grp_field E (Some (MAILIMF_FIELD_OPTIONAL_FIELD (Some f))) g = grp_optional_field E f g"
| "grp_field E (Some (MAILIMF_FIELD_MESSAGE_ID (Some mid_value))) g =
     g\<lparr>grpid2 := extract_grpid_from_messageid E mid_value\<rparr>"
| "grp_field E (Some (MAILIMF_FIELD_IN_REPLY_TO (Some mid_list))) g =
     g\<lparr>grpid3 := get_first_grpid_from_char_clist E mid_list\<rparr>"
| "grp_field E (Some (MAILIMF_FIELD_REFERENCES (Some mid_list))) g =
     g\<lparr>grpid4 := get_first_grpid_from_char_clist E mid_list\<rparr>"
| "grp_field E _ g = g"

definition grp_walk :: "mr_env \<Rightarrow> mailimf_field option list \<Rightarrow> grp_locals" where
  "grp_walk E fld_list = fold (grp_field E) fld_list grp_locals_init"

text \<open>\<^verbatim>\<open>grpid = grpid1? grpid1 : (grpid2? grpid2 : (grpid3? grpid3 : grpid4))\<close>.\<close>

definition grp_grpid :: "grp_locals \<Rightarrow> string option" where
  "grp_grpid g =
     (case grpid1 g of
        Some x \<Rightarrow> Some x
      | None \<Rightarrow>
         (case grpid2 g of
            Some x \<Rightarrow> Some x
          | None \<Rightarrow> (case grpid3 g of Some x \<Rightarrow> Some x | None \<Rightarrow> grpid4 g)))"

subsection \<open>The group resolver\<close>

text \<open>\<^verbatim>\<open>SELECT id FROM chats WHERE grpid=?\<close>; \<^verbatim>\<open>chat_id\<close> stays 0 when there is no row.\<close>

definition select_chat_by_grpid :: "mrmailbox \<Rightarrow> string \<Rightarrow> nat" where
  "select_chat_by_grpid mailbox grpid =
     (case find (\<lambda>r. c_grpid r = grpid) (chats (m_sql mailbox)) of
        None \<Rightarrow> 0
      | Some r \<Rightarrow> c_id r)"

text \<open>
  \<^verbatim>\<open>INSERT INTO chats (type, name, grpid) VALUES(?, ?, ?)\<close> with
  \<^verbatim>\<open>sqlite3_last_insert_rowid\<close>. The result is \<open>None\<close> when \<^verbatim>\<open>sqlite3_step\<close> does
  not return \<^verbatim>\<open>SQLITE_DONE\<close>; on the modelled tables the statement always succeeds.
\<close>

definition insert_chat ::
  "mrmailbox \<Rightarrow> chat_type \<Rightarrow> string \<Rightarrow> string \<Rightarrow> (nat \<times> mrmailbox) option" where
  "insert_chat mailbox ty name grpid =
     (let rowid = new_rowid (map c_id (chats (m_sql mailbox)))
      in Some (rowid,
           mailbox\<lparr>m_sql := (m_sql mailbox)\<lparr>chats := chats (m_sql mailbox) @
             [\<lparr>c_id = rowid, c_type = ty, c_name = name, c_grpid = grpid\<rparr>]\<rparr>\<rparr>))"

text \<open>\<^verbatim>\<open>UPDATE chats SET name=? WHERE id=?\<close>.\<close>

definition update_chat_name :: "mrmailbox \<Rightarrow> string \<Rightarrow> nat \<Rightarrow> mrmailbox" where
  "update_chat_name mailbox name chat_id =
     mailbox\<lparr>m_sql := (m_sql mailbox)\<lparr>chats :=
       map (\<lambda>r. if c_id r = chat_id then r\<lparr>c_name := name\<rparr> else r) (chats (m_sql mailbox))\<rparr>\<rparr>"

text \<open>\<^verbatim>\<open>DELETE FROM chats_contacts WHERE chat_id=?\<close>.\<close>

definition delete_chat_contacts :: "mrmailbox \<Rightarrow> nat \<Rightarrow> mrmailbox" where
  "delete_chat_contacts mailbox chat_id =
     mailbox\<lparr>m_sql := (m_sql mailbox)\<lparr>chats_contacts :=
       filter (\<lambda>p. fst p \<noteq> chat_id) (chats_contacts (m_sql mailbox))\<rparr>\<rparr>"

text \<open>
  The creation test of \<^verbatim>\<open>lookup_group_by_grpid__\<close>, without \<^verbatim>\<open>chat_id == 0\<close>:
  creation is allowed, a group name is there, no member is removed, and the group was not
  left or the added member is the user.
\<close>

definition grp_may_create :: "grp_locals \<Rightarrow> bool \<Rightarrow> bool \<Rightarrow> string \<Rightarrow> bool" where
  "grp_may_create g create_as_needed group_explicitly_left self_addr =
     (create_as_needed \<and> grpname g \<noteq> None \<and> X_MrRemoveFromGrp g = None \<and>
      (\<not> group_explicitly_left \<or>
       (case X_MrAddToGrp g of None \<Rightarrow> False | Some a \<Rightarrow> strcasecmp_eq self_addr a)))"

text \<open>The two address tests that guard an added member; \<open>skip\<close> is the removed address.\<close>

definition grp_keeps :: "mrmailbox \<Rightarrow> string \<Rightarrow> string option \<Rightarrow> nat \<Rightarrow> bool" where
  "grp_keeps mailbox self_addr skip contact_id =
     (\<not> mrmailbox_contact_addr_equals_locked mailbox contact_id self_addr \<and>
      (case skip of
         None \<Rightarrow> True
       | Some s \<Rightarrow> \<not> mrmailbox_contact_addr_equals_locked mailbox contact_id s))"

text \<open>The loop over \<^verbatim>\<open>to_list\<close> in the block \<^verbatim>\<open>if( recreate_member_list )\<close>.\<close>

fun grp_add_to_list ::
  "mrmailbox \<Rightarrow> nat \<Rightarrow> string \<Rightarrow> string option \<Rightarrow> nat list \<Rightarrow> mrmailbox" where
  "grp_add_to_list mailbox chat_id self_addr skip [] = mailbox"
| "grp_add_to_list mailbox chat_id self_addr skip (to_id # rest) =
     grp_add_to_list
       (if grp_keeps mailbox self_addr skip to_id
        then mrmailbox_add_contact_to_chat_locked mailbox chat_id to_id else mailbox)
       chat_id self_addr skip rest"

text \<open>The block \<^verbatim>\<open>if( recreate_member_list ) { ... }\<close>.\<close>

definition grp_recreate_member_list ::
  "mr_env \<Rightarrow> mrmailbox \<Rightarrow> nat \<Rightarrow> string \<Rightarrow> string option \<Rightarrow> nat \<Rightarrow> nat list \<Rightarrow> mrmailbox" where
  "grp_recreate_member_list E mailbox chat_id self_addr skip from_id to_list =
     (let m1 = delete_chat_contacts mailbox chat_id;
          m2 = (if (case skip of None \<Rightarrow> True | Some s \<Rightarrow> \<not> strcasecmp_eq self_addr s)
                then mrmailbox_add_contact_to_chat_locked m1 chat_id (MR_CONTACT_ID_SELF E)
                else m1);
          m3 = (if from_id > MR_CONTACT_ID_LAST_SPECIAL E \<and> grp_keeps m2 self_addr skip from_id
                then mrmailbox_add_contact_to_chat_locked m2 chat_id from_id
                else m2);
          m4 = grp_add_to_list m3 chat_id self_addr skip to_list
      in m_cb m4 MR_EVENT_CHAT_MODIFIED chat_id 0)"

text \<open>
  The part of \<^verbatim>\<open>lookup_group_by_grpid__\<close> from "execute group commands" to the end,
  entered with a \<^verbatim>\<open>chat_id\<close> above \<^verbatim>\<open>MR_CHAT_ID_LAST_SPECIAL\<close>; \<open>recreate\<close> is
  \<^verbatim>\<open>recreate_member_list\<close> as the creation step left it.
\<close>

definition grp_commands ::
  "mr_env \<Rightarrow> mrmailbox \<Rightarrow> bool \<Rightarrow> grp_locals \<Rightarrow> string \<Rightarrow> nat \<Rightarrow> bool \<Rightarrow> nat \<Rightarrow> nat list
     \<Rightarrow> nat \<times> mrmailbox" where
  "grp_commands E mailbox is_send_by_messenger g self_addr chat_id recreate from_id to_list =
     (let (recreate_member_list, m1) =
            (if X_MrAddToGrp g \<noteq> None \<or> X_MrRemoveFromGrp g \<noteq> None then (True, mailbox)
             else if X_MrGrpNameChanged g \<and>
                     (case grpname g of None \<Rightarrow> False | Some n \<Rightarrow> length n < 200)
             then (recreate,
                   m_cb (update_chat_name mailbox (the (grpname g)) chat_id)
                     MR_EVENT_CHAT_MODIFIED chat_id 0)
             else (recreate, mailbox));
          m2 = (if recreate_member_list
                then grp_recreate_member_list E m1 chat_id self_addr (X_MrRemoveFromGrp g)
                       from_id to_list
                else m1)
      in if length to_list = 1 \<and> \<not> is_send_by_messenger \<and>
            mrmailbox_get_chat_contact_count_locked m2 chat_id > 3
         then (0, m2) else (chat_id, m2))"

text \<open>
  \<^verbatim>\<open>lookup_group_by_grpid__\<close> from the lookup of the chat on, for the group id
  \<open>grpid\<close> the header has given. The result is the chat id returned and the mailbox
  as the function leaves it.
\<close>

definition grp_lookup ::
  "mr_env \<Rightarrow> mrmailbox \<Rightarrow> bool \<Rightarrow> grp_locals \<Rightarrow> string \<Rightarrow> bool \<Rightarrow> nat \<Rightarrow> nat list
     \<Rightarrow> nat \<times> mrmailbox" where
  "grp_lookup E mailbox is_send_by_messenger g grpid create_as_needed from_id to_list =
     (let chat_id = select_chat_by_grpid mailbox grpid
      in if chat_id \<noteq> 0 \<and> \<not> mrmailbox_is_contact_in_chat_locked mailbox chat_id from_id
         then (0, mailbox)
         else
          (let group_explicitly_left = mrmailbox_group_explicitly_left_locked mailbox grpid;
               self_addr = mrsqlite3_get_config_locked (m_sql mailbox) ''configured_addr'' [];
               created =
                 (if chat_id = 0 \<and> grp_may_create g create_as_needed group_explicitly_left self_addr
                  then (case insert_chat mailbox MR_CHAT_GROUP (the (grpname g)) grpid of
                          None \<Rightarrow> None
                        | Some (rowid, m1) \<Rightarrow> Some (rowid, True, m1))
                  else Some (chat_id, False, mailbox))
           in case created of
                None \<Rightarrow> (chat_id, mailbox)
              | Some (chat_id1, recreate, m1) \<Rightarrow>
                 if chat_id1 \<le> MR_CHAT_ID_LAST_SPECIAL E
                 then (if group_explicitly_left then MR_CHAT_ID_TRASH E else 0, m1)
                 else grp_commands E m1 is_send_by_messenger g self_addr chat_id1 recreate
                        from_id to_list))"

text \<open>
  \<^verbatim>\<open>lookup_group_by_grpid__\<close>; \<open>fld_list\<close> is \<^verbatim>\<open>mime_parser->m_header->fld_list\<close>
  (the caller has checked that the header is there).
\<close>

definition lookup_group_by_grpid_locked ::
  "mr_env \<Rightarrow> mrmailbox \<Rightarrow> mailimf_field option list \<Rightarrow> bool \<Rightarrow> bool \<Rightarrow> nat \<Rightarrow> nat list
     \<Rightarrow> nat \<times> mrmailbox" where
  "lookup_group_by_grpid_locked E mailbox fld_list is_send_by_messenger create_as_needed from_id to_list =
     (let g = grp_walk E fld_list
      in case grp_grpid g of
           None \<Rightarrow> (0, mailbox)
         | Some grpid \<Rightarrow>
            grp_lookup E mailbox is_send_by_messenger g grpid create_as_needed from_id to_list)"

subsection \<open>Contacts, chats and messages\<close>

text \<open>
  Modelled from the spec: \<^verbatim>\<open>mr_find_mailimf_field\<close> (mrtools.c is not in the files at
  hand): the first field of the header that has the wanted type, NULL when there is none.
  The wanted type is given by a test on the field.
\<close>

fun is_field_from :: "mailimf_field \<Rightarrow> bool" where
  "is_field_from (MAILIMF_FIELD_FROM x) = True"
| "is_field_from _ = False"

fun is_field_to :: "mailimf_field \<Rightarrow> bool" where
  "is_field_to (MAILIMF_FIELD_TO x) = True"
| "is_field_to _ = False"

fun mr_find_mailimf_field ::
  "mailimf_field option list \<Rightarrow> (mailimf_field \<Rightarrow> bool) \<Rightarrow> mailimf_field option" where
  "mr_find_mailimf_field [] wanted = None"
| "mr_find_mailimf_field (None # cur) wanted = mr_find_mailimf_field cur wanted"
| "mr_find_mailimf_field (Some field # cur) wanted =
     (if wanted field then Some field else mr_find_mailimf_field cur wanted)"

text \<open>
  Modelled from the spec: the facade's \<^verbatim>\<open>add_or_lookup_contact\<close>,
  \<^verbatim>\<open>is_known_contact\<close>, the origin upgrade and the blocked test (mrcontact.c is not
  in the files at hand). The spec: "new contacts enter at the origin of discovery; an
  existing contact's origin is upgraded, never downgraded";
  \<^verbatim>\<open>is_known_contact(contact_id)\<close> gives \<open>(known, blocked)\<close>, and a blocked contact is
  not known. A contact counts as known when its origin is above
  \<^verbatim>\<open>INCOMING_UNKNOWN_FROM\<close>.
\<close>

definition scaleup_origin :: "origin \<Rightarrow> contact_row \<Rightarrow> contact_row" where
  "scaleup_origin origin r =
     (if origin_rank (ct_origin r) < origin_rank origin then r\<lparr>ct_origin := origin\<rparr> else r)"

definition mrmailbox_scaleup_contact_origin_locked :: "mrmailbox \<Rightarrow> nat \<Rightarrow> origin \<Rightarrow> mrmailbox" where
  "mrmailbox_scaleup_contact_origin_locked mailbox contact_id origin =
     mailbox\<lparr>m_sql := (m_sql mailbox)\<lparr>contacts :=
       map (\<lambda>r. if ct_id r = contact_id then scaleup_origin origin r else r)
         (contacts (m_sql mailbox))\<rparr>\<rparr>"

definition mrmailbox_add_or_lookup_contact_locked ::
  "mrmailbox \<Rightarrow> string option \<Rightarrow> string \<Rightarrow> origin \<Rightarrow> nat \<times> mrmailbox" where
  "mrmailbox_add_or_lookup_contact_locked mailbox name addr origin =
     (case find (\<lambda>r. strcasecmp_eq (ct_addr r) addr) (contacts (m_sql mailbox)) of
        Some r \<Rightarrow> (ct_id r, mrmailbox_scaleup_contact_origin_locked mailbox (ct_id r) origin)
      | None \<Rightarrow>
         (let row_id = new_rowid (map ct_id (contacts (m_sql mailbox)))
          in (row_id,
              mailbox\<lparr>m_sql := (m_sql mailbox)\<lparr>contacts := contacts (m_sql mailbox) @
                [\<lparr>ct_id = row_id, ct_name = safe_strdup name, ct_addr = addr,
                  ct_origin = origin, ct_blocked = False\<rparr>]\<rparr>\<rparr>)))"

definition mrmailbox_is_known_contact_locked :: "mrmailbox \<Rightarrow> nat \<Rightarrow> bool \<times> bool" where
  "mrmailbox_is_known_contact_locked mailbox contact_id =
     (case find (\<lambda>r. ct_id r = contact_id) (contacts (m_sql mailbox)) of
        None \<Rightarrow> (False, False)
      | Some r \<Rightarrow>
         if ct_blocked r then (False, True)
         else (origin_rank MR_ORIGIN_INCOMING_UNKNOWN_FROM < origin_rank (ct_origin r), False))"

definition mrmailbox_is_contact_blocked_locked :: "mrmailbox \<Rightarrow> nat \<Rightarrow> bool" where
  "mrmailbox_is_contact_blocked_locked mailbox contact_id =
     (case find (\<lambda>r. ct_id r = contact_id) (contacts (m_sql mailbox)) of
        None \<Rightarrow> False
      | Some r \<Rightarrow> ct_blocked r)"

text \<open>
  Modelled from the spec: the facade's \<^verbatim>\<open>lookup_real_nchat_by_contact_id\<close> and
  \<^verbatim>\<open>create_or_lookup_nchat_by_contact_id\<close> (mrchat.c is not in the files at hand): the
  single chat, above the special ids, that the contact is a member of, 0 when there is
  none; and the same with such a chat created, named after the contact, when there is none
  and the contact exists.
\<close>

definition mrmailbox_lookup_real_nchat_by_contact_id_locked :: "mr_env \<Rightarrow> mrmailbox \<Rightarrow> nat \<Rightarrow> nat" where
  "mrmailbox_lookup_real_nchat_by_contact_id_locked E mailbox contact_id =
     (case find (\<lambda>r. c_type r = MR_CHAT_NORMAL \<and> c_id r > MR_CHAT_ID_LAST_SPECIAL E \<and>
                      (c_id r, contact_id) \<in> set (chats_contacts (m_sql mailbox)))
             (chats (m_sql mailbox)) of
        None \<Rightarrow> 0
      | Some r \<Rightarrow> c_id r)"

definition mrmailbox_create_or_lookup_nchat_by_contact_id_locked ::
  "mr_env \<Rightarrow> mrmailbox \<Rightarrow> nat \<Rightarrow> nat \<times> mrmailbox" where
  "mrmailbox_create_or_lookup_nchat_by_contact_id_locked E mailbox contact_id =
     (let chat_id = mrmailbox_lookup_real_nchat_by_contact_id_locked E mailbox contact_id
      in if chat_id \<noteq> 0 then (chat_id, mailbox)
         else (case find (\<lambda>r. ct_id r = contact_id) (contacts (m_sql mailbox)) of
                 None \<Rightarrow> (0, mailbox)
               | Some r \<Rightarrow>
                  (case insert_chat mailbox MR_CHAT_NORMAL
                          (if ct_name r = [] then ct_addr r else ct_name r) [] of
                     None \<Rightarrow> (0, mailbox)
                   | Some (rowid, m1) \<Rightarrow>
                      (rowid, mrmailbox_add_contact_to_chat_locked m1 rowid contact_id))))"

text \<open>
  Modelled from the spec: the facade's \<^verbatim>\<open>rfc724_mid_exists\<close>,
  \<^verbatim>\<open>update_server_uid\<close> and \<^verbatim>\<open>mdn_from_ext\<close> (mrmsg.c is not in the files at hand).
  \<^verbatim>\<open>rfc724_mid_exists(mid)\<close> gives the folder and uid of a row with that message id;
  \<^verbatim>\<open>mdn_from_ext(from_id, mid)\<close> gives, for a message with that id sent by the user,
  its chat and row id, and "the sent message's state becomes \<^verbatim>\<open>OUT_READ\<close>".
\<close>

definition mrmailbox_rfc724_mid_exists_locked :: "mrmailbox \<Rightarrow> string \<Rightarrow> (string \<times> nat) option" where
  "mrmailbox_rfc724_mid_exists_locked mailbox rfc724_mid =
     (case find (\<lambda>r. msg_rfc724_mid r = rfc724_mid) (msgs (m_sql mailbox)) of
        None \<Rightarrow> None
      | Some r \<Rightarrow> Some (msg_server_folder r, msg_server_uid r))"

definition mrmailbox_update_server_uid_locked :: "mrmailbox \<Rightarrow> string \<Rightarrow> string \<Rightarrow> nat \<Rightarrow> mrmailbox" where
  "mrmailbox_update_server_uid_locked mailbox rfc724_mid server_folder server_uid =
     mailbox\<lparr>m_sql := (m_sql mailbox)\<lparr>msgs :=
       map (\<lambda>r. if msg_rfc724_mid r = rfc724_mid
                 then r\<lparr>msg_server_folder := server_folder, msg_server_uid := server_uid\<rparr>
                 else r)
         (msgs (m_sql mailbox))\<rparr>\<rparr>"

definition mrmailbox_mdn_from_ext_locked ::
  "mr_env \<Rightarrow> mrmailbox \<Rightarrow> nat \<Rightarrow> string \<Rightarrow> ((nat \<times> nat) \<times> mrmailbox) option" where
  "mrmailbox_mdn_from_ext_locked E mailbox from_id rfc724_mid =
     (case find (\<lambda>r. msg_rfc724_mid r = rfc724_mid \<and> msg_from_id r = MR_CONTACT_ID_SELF E)
             (msgs (m_sql mailbox)) of
        None \<Rightarrow> None
      | Some r \<Rightarrow>
         Some ((msg_chat_id r, msg_id r),
               mailbox\<lparr>m_sql := (m_sql mailbox)\<lparr>msgs :=
                 map (\<lambda>x. if msg_id x = msg_id r then x\<lparr>msg_state := MR_OUT_READ\<rparr> else x)
                   (msgs (m_sql mailbox))\<rparr>\<rparr>))"

text \<open>
  \<^verbatim>\<open>INSERT INTO msgs (...) VALUES (...)\<close> with \<^verbatim>\<open>sqlite3_last_insert_rowid\<close>;
  the row comes without its id. \<open>None\<close> when \<^verbatim>\<open>sqlite3_step\<close> does not return
  \<^verbatim>\<open>SQLITE_DONE\<close>; on the modelled tables the statement always succeeds.
\<close>

definition insert_msg :: "mrmailbox \<Rightarrow> msg_row \<Rightarrow> (nat \<times> mrmailbox) option" where
  "insert_msg mailbox row =
     (let rowid = new_rowid (map msg_id (msgs (m_sql mailbox)))
      in Some (rowid,
           mailbox\<lparr>m_sql := (m_sql mailbox)\<lparr>msgs :=
             msgs (m_sql mailbox) @ [row\<lparr>msg_id := rowid\<rparr>]\<rparr>\<rparr>))"

subsection \<open>Receiving a message\<close>

text \<open>
  \<^verbatim>\<open>correct_bad_timestamp__\<close>. \<^verbatim>\<open>SELECT MAX(timestamp) FROM msgs WHERE chat_id=? and
  from_id!=? AND timestamp>=?\<close> always yields a row; without a matching message the
  column is NULL and reads as 0.
\<close>

definition correct_bad_timestamp_locked ::
  "mr_env \<Rightarrow> mrmailbox \<Rightarrow> nat \<Rightarrow> nat \<Rightarrow> int \<Rightarrow> bool \<Rightarrow> int" where
  "correct_bad_timestamp_locked E ths chat_id from_id desired_timestamp is_fresh_msg =
     (let d1 =
        (if is_fresh_msg then
           (let ts = map msg_timestamp
                       (filter (\<lambda>r. msg_chat_id r = chat_id \<and> msg_from_id r \<noteq> from_id \<and>
                                     desired_timestamp \<le> msg_timestamp r)
                          (msgs (m_sql ths)));
                last_msg_time = (case ts of [] \<Rightarrow> 0 | t # rest \<Rightarrow> fold max rest t)
            in if last_msg_time > 0 \<and> desired_timestamp \<le> last_msg_time
               then last_msg_time + 1 else desired_timestamp)
         else desired_timestamp)
      in if d1 \<ge> mr_smeared_time_locked E then mr_create_smeared_timestamp_locked E else d1)"

text \<open>
  \<^verbatim>\<open>add_or_lookup_contact_by_addr__\<close>. The result is the mailbox, the id list and the
  value left in \<^verbatim>\<open>*check_self\<close>, which every call first sets to 0.
\<close>

definition add_or_lookup_contact_by_addr_locked ::
  "mr_env \<Rightarrow> mrmailbox \<Rightarrow> string option \<Rightarrow> string \<Rightarrow> origin \<Rightarrow> nat list
     \<Rightarrow> mrmailbox \<times> nat list \<times> bool" where
  "add_or_lookup_contact_by_addr_locked E ths display_name_enc addr_spec origin ids =
     (let self_addr = mrsqlite3_get_config_locked (m_sql ths) ''configured_addr'' []
      in if strcasecmp_eq self_addr addr_spec then (ths, ids, True)
         else
          (let display_name_dec =
                 map_option (\<lambda>n. mr_normalize_name E (mr_decode_header_string E n)) display_name_enc;
               (row_id, ths1) =
                 mrmailbox_add_or_lookup_contact_locked ths display_name_dec addr_spec origin
           in (ths1, if row_id \<noteq> 0 \<and> row_id \<notin> set ids then ids @ [row_id] else ids, False)))"

text \<open>
  \<^verbatim>\<open>add_or_lookup_contacts_by_mailbox_list__\<close>: the state is the mailbox, the id list
  and the current value of \<^verbatim>\<open>*check_self\<close>; a NULL entry changes nothing.
\<close>

fun add_or_lookup_contacts_by_mailbox_list_locked ::
  "mr_env \<Rightarrow> mailimf_mailbox option list \<Rightarrow> origin \<Rightarrow> mrmailbox \<times> nat list \<times> bool
     \<Rightarrow> mrmailbox \<times> nat list \<times> bool" where
  "add_or_lookup_contacts_by_mailbox_list_locked E [] origin st = st"
| "add_or_lookup_contacts_by_mailbox_list_locked E (None # cur) origin st =
     add_or_lookup_contacts_by_mailbox_list_locked E cur origin st"
| "add_or_lookup_contacts_by_mailbox_list_locked E (Some mb # cur) origin (ths, ids, check_self) =
     add_or_lookup_contacts_by_mailbox_list_locked E cur origin
       (add_or_lookup_contact_by_addr_locked E ths (mb_display_name mb) (mb_addr_spec mb)
          origin ids)"

text \<open>\<^verbatim>\<open>add_or_lookup_contacts_by_address_list__\<close>.\<close>

fun add_or_lookup_contacts_by_address_list_locked ::
  "mr_env \<Rightarrow> mailimf_address option list \<Rightarrow> origin \<Rightarrow> mrmailbox \<times> nat list \<times> bool
     \<Rightarrow> mrmailbox \<times> nat list \<times> bool" where
  "add_or_lookup_contacts_by_address_list_locked E [] origin st = st"
| "add_or_lookup_contacts_by_address_list_locked E (Some (MAILIMF_ADDRESS_MAILBOX (Some mb)) # cur)
       origin (ths, ids, check_self) =
     add_or_lookup_contacts_by_address_list_locked E cur origin
       (add_or_lookup_contact_by_addr_locked E ths (mb_display_name mb) (mb_addr_spec mb)
          origin ids)"
| "add_or_lookup_contacts_by_address_list_locked E (Some (MAILIMF_ADDRESS_GROUP (Some grp_mb_list)) # cur)
       origin st =
     add_or_lookup_contacts_by_address_list_locked E cur origin
       (add_or_lookup_contacts_by_mailbox_list_locked E grp_mb_list origin st)"
| "add_or_lookup_contacts_by_address_list_locked E (_ # cur) origin st =
     add_or_lookup_contacts_by_address_list_locked E cur origin st"

text \<open>
  \<^verbatim>\<open>is_known_rfc724_mid__\<close> (\<^verbatim>\<open>SELECT id FROM msgs WHERE rfc724_mid=? AND
  (chat_id>? OR from_id=?)\<close>), \<^verbatim>\<open>is_known_rfc724_mid_in_list__\<close> and
  \<^verbatim>\<open>is_reply_to_known_message__\<close>.
\<close>

definition is_known_rfc724_mid_locked :: "mr_env \<Rightarrow> mrmailbox \<Rightarrow> string option \<Rightarrow> bool" where
  "is_known_rfc724_mid_locked E mailbox rfc724_mid =
     (case rfc724_mid of
        None \<Rightarrow> False
      | Some mid \<Rightarrow>
         list_ex (\<lambda>r. msg_rfc724_mid r = mid \<and>
                      (msg_chat_id r > MR_CHAT_ID_LAST_SPECIAL E \<or>
                       msg_from_id r = MR_CONTACT_ID_SELF E))
           (msgs (m_sql mailbox)))"

definition is_known_rfc724_mid_in_list_locked ::
  "mr_env \<Rightarrow> mrmailbox \<Rightarrow> string option list option \<Rightarrow> bool" where
  "is_known_rfc724_mid_in_list_locked E mailbox mid_list =
     (case mid_list of
        None \<Rightarrow> False
      | Some l \<Rightarrow> list_ex (is_known_rfc724_mid_locked E mailbox) l)"

fun is_reply_field :: "mr_env \<Rightarrow> mrmailbox \<Rightarrow> mailimf_field option \<Rightarrow> bool" where
  "is_reply_field E mailbox (Some (MAILIMF_FIELD_OPTIONAL_FIELD (Some f))) =
     ((strcasecmp_eq (fld_name f) ''X-MrPredecessor'' \<or>
       strcasecmp_eq (fld_name f) ''Chat-Predecessor'') \<and>
      is_known_rfc724_mid_locked E mailbox (fld_value f))"
| "is_reply_field E mailbox (Some (MAILIMF_FIELD_IN_REPLY_TO (Some mid_list))) =
     is_known_rfc724_mid_in_list_locked E mailbox mid_list"
| "is_reply_field E mailbox (Some (MAILIMF_FIELD_REFERENCES (Some mid_list))) =
     is_known_rfc724_mid_in_list_locked E mailbox mid_list"
| "is_reply_field E mailbox _ = False"

definition is_reply_to_known_message_locked ::
  "mr_env \<Rightarrow> mrmailbox \<Rightarrow> mailimf_field option list \<Rightarrow> bool" where
  "is_reply_to_known_message_locked E mailbox fld_list = list_ex (is_reply_field E mailbox) fld_list"

text \<open>
  The locals of \<^verbatim>\<open>receive_imf\<close>, with the mailbox. \<^verbatim>\<open>created_db_entries\<close> and
  \<^verbatim>\<open>rr_event_to_send\<close> hold two array entries per event; here they hold pairs.
  \<^verbatim>\<open>create_event_to_send\<close> is an event code, or 0 for no event: an \<open>option\<close>.
\<close>

record imf_locals =
  l_ths :: mrmailbox
  l_incoming :: bool
  l_incoming_from_known_sender :: bool
  l_is_group :: bool
  l_to_list :: "nat list"
  l_from_id :: nat
  l_from_id_blocked :: bool
  l_to_id :: nat
  l_chat_id :: nat
  l_state :: msg_state
  l_first_dblocal_id :: nat
  l_rfc724_mid :: "string option"
  l_message_timestamp :: int
  l_db_locked :: bool
  l_transaction_pending :: bool
  l_created_db_entries :: "(nat \<times> nat) list"
  l_create_event_to_send :: "event option"
  l_rr_event_to_send :: "(nat \<times> nat) list"
  l_has_return_path :: bool

definition imf_locals_init :: "mr_env \<Rightarrow> mrmailbox \<Rightarrow> imf_locals" where
  "imf_locals_init E ths =
     \<lparr>l_ths = ths, l_incoming = False, l_incoming_from_known_sender = False,
      l_is_group = False, l_to_list = [], l_from_id = 0, l_from_id_blocked = False,
      l_to_id = 0, l_chat_id = 0, l_state = MR_STATE_UNDEFINED, l_first_dblocal_id = 0,
      l_rfc724_mid = None, l_message_timestamp = MR_INVALID_TIMESTAMP E,
      l_db_locked = False, l_transaction_pending = False, l_created_db_entries = [],
      l_create_event_to_send = Some MR_EVENT_MSGS_CHANGED, l_rr_event_to_send = [],
      l_has_return_path = False\<rparr>"

text \<open>
  The first loop over the header: is the field a Return-Path, by its type or as an
  optional field of that name?
\<close>

fun is_return_path_field :: "mailimf_field option \<Rightarrow> bool" where
  "is_return_path_field (Some MAILIMF_FIELD_RETURN_PATH) = True"
| "is_return_path_field (Some (MAILIMF_FIELD_OPTIONAL_FIELD (Some f))) =
     strcasecmp_eq (fld_name f) ''Return-Path''"
| "is_return_path_field _ = False"

definition imf_direction :: "mailimf_field option list \<Rightarrow> imf_locals \<Rightarrow> imf_locals" where
  "imf_direction fld_list l =
     (let has_return_path = list_ex is_return_path_field fld_list
      in l\<lparr>l_has_return_path := has_return_path,
            l_incoming := (if has_return_path then True else l_incoming l)\<rparr>)"

text \<open>
  The From: block. \<^verbatim>\<open>check_self\<close> is passed uninitialised to
  \<^verbatim>\<open>add_or_lookup_contacts_by_mailbox_list__\<close>; what it holds afterwards is what the call
  for the last mailbox of the list has left there.
\<close>

definition imf_from :: "mr_env \<Rightarrow> mailimf_field option list \<Rightarrow> imf_locals \<Rightarrow> imf_locals" where
  "imf_from E fld_list l =
     (if l_incoming l then
        (case mr_find_mailimf_field fld_list is_field_from of
           Some (MAILIMF_FIELD_FROM (Some frm_mb_list)) \<Rightarrow>
             (let (ths1, from_list, check_self) =
                    add_or_lookup_contacts_by_mailbox_list_locked E frm_mb_list
                      MR_ORIGIN_INCOMING_UNKNOWN_FROM (l_ths l, [], uninit_check_self E)
              in if check_self then l\<lparr>l_ths := ths1, l_incoming := False\<rparr>
                 else (case from_list of
                         [] \<Rightarrow> l\<lparr>l_ths := ths1\<rparr>
                       | fid # rest \<Rightarrow>
                          (let (known, blocked) = mrmailbox_is_known_contact_locked ths1 fid
                           in l\<lparr>l_ths := ths1, l_from_id := fid, l_from_id_blocked := blocked,
                                 l_incoming_from_known_sender :=
                                   (if known then True else l_incoming_from_known_sender l)\<rparr>)))
         | _ \<Rightarrow> l)
      else l)"

text \<open>The To: block; \<^verbatim>\<open>check_self\<close> is NULL here.\<close>

definition imf_to :: "mr_env \<Rightarrow> mailimf_field option list \<Rightarrow> imf_locals \<Rightarrow> imf_locals" where
  "imf_to E fld_list l =
     (if \<not> l_incoming l \<or> l_incoming_from_known_sender l then
        (case mr_find_mailimf_field fld_list is_field_to of
           Some (MAILIMF_FIELD_TO (Some to_addr_list)) \<Rightarrow>
             (let (ths1, ids, check_self) =
                    add_or_lookup_contacts_by_address_list_locked E to_addr_list
                      (if \<not> l_incoming l then MR_ORIGIN_OUTGOING_TO else MR_ORIGIN_INCOMING_TO)
                      (l_ths l, l_to_list l, False)
              in l\<lparr>l_ths := ths1, l_to_list := ids\<rparr>)
         | _ \<Rightarrow> l)
      else l)"

text \<open>The loop "collect the rest information", for one field.\<close>

fun imf_collect_field :: "mr_env \<Rightarrow> mailimf_field option \<Rightarrow> imf_locals \<Rightarrow> imf_locals" where
  "imf_collect_field E (Some (MAILIMF_FIELD_MESSAGE_ID (Some mid_value))) l =
     l\<lparr>l_rfc724_mid := Some (safe_strdup mid_value)\<rparr>"
| "imf_collect_field E (Some (MAILIMF_FIELD_CC (Some cc_addr_list))) l =
     (let (ths1, ids, check_self) =
            add_or_lookup_contacts_by_address_list_locked E cc_addr_list
              (if \<not> l_incoming l then MR_ORIGIN_OUTGOING_CC else MR_ORIGIN_INCOMING_CC)
              (l_ths l, l_to_list l, False)
      in l\<lparr>l_ths := ths1, l_to_list := ids\<rparr>)"
| "imf_collect_field E (Some (MAILIMF_FIELD_BCC (Some bcc_addr_list))) l =
     (if \<not> l_incoming l then
        (let (ths1, ids, check_self) =
               add_or_lookup_contacts_by_address_list_locked E bcc_addr_list
                 MR_ORIGIN_OUTGOING_BCC (l_ths l, l_to_list l, False)
         in l\<lparr>l_ths := ths1, l_to_list := ids\<rparr>)
      else l)"
| "imf_collect_field E (Some (MAILIMF_FIELD_ORIG_DATE (Some t))) l = l\<lparr>l_message_timestamp := t\<rparr>"
| "imf_collect_field E _ l = l"

text \<open>
  The choice of the chat: the group resolver first, then the chat with the sender (for an
  incoming message) or with the first recipient (for an outgoing one).
\<close>

definition imf_chat_incoming ::
  "mr_env \<Rightarrow> mrmimeparser \<Rightarrow> mailimf_field option list \<Rightarrow> 32 word \<Rightarrow> imf_locals \<Rightarrow> imf_locals" where
  "imf_chat_incoming E mime_parser fld_list flags l =
     (let l1 = l\<lparr>l_state := (if flags AND MR_IMAP_SEEN E \<noteq> 0 then MR_IN_SEEN else MR_IN_FRESH),
                  l_to_id := MR_CONTACT_ID_SELF E\<rparr>;
          create = (l_incoming_from_known_sender l \<and> m_is_send_by_messenger mime_parser);
          (chat_id, ths1) =
            lookup_group_by_grpid_locked E (l_ths l) fld_list
              (m_is_send_by_messenger mime_parser) create (l_from_id l) (l_to_list l)
      in if chat_id \<noteq> 0 then l1\<lparr>l_ths := ths1, l_chat_id := chat_id, l_is_group := True\<rparr>
         else
          (let chat_id1 = mrmailbox_lookup_real_nchat_by_contact_id_locked E ths1 (l_from_id l);
               (chat_id2, ths2) =
                 (if chat_id1 = 0 then
                    (if create
                     then mrmailbox_create_or_lookup_nchat_by_contact_id_locked E ths1 (l_from_id l)
                     else if is_reply_to_known_message_locked E ths1 fld_list
                     then mrmailbox_create_or_lookup_nchat_by_contact_id_locked E
                            (mrmailbox_scaleup_contact_origin_locked ths1 (l_from_id l)
                               MR_ORIGIN_INCOMING_REPLY_TO)
                            (l_from_id l)
                     else (chat_id1, ths1))
                  else (chat_id1, ths1))
           in l1\<lparr>l_ths := ths2,
                  l_chat_id := (if chat_id2 = 0 then MR_CHAT_ID_DEADDROP E else chat_id2)\<rparr>))"

definition imf_chat_outgoing ::
  "mr_env \<Rightarrow> mrmimeparser \<Rightarrow> mailimf_field option list \<Rightarrow> imf_locals \<Rightarrow> imf_locals" where
  "imf_chat_outgoing E mime_parser fld_list l =
     (let l1 = l\<lparr>l_state := MR_OUT_DELIVERED, l_from_id := MR_CONTACT_ID_SELF E\<rparr>;
          l2 =
            (case l_to_list l of
               [] \<Rightarrow> l1
             | to_id # rest \<Rightarrow>
                (let (chat_id, ths1) =
                       lookup_group_by_grpid_locked E (l_ths l) fld_list
                         (m_is_send_by_messenger mime_parser) True (MR_CONTACT_ID_SELF E)
                         (l_to_list l)
                 in if chat_id \<noteq> 0
                    then l1\<lparr>l_to_id := to_id, l_ths := ths1, l_chat_id := chat_id,
                            l_is_group := True\<rparr>
                    else
                     (let chat_id1 = mrmailbox_lookup_real_nchat_by_contact_id_locked E ths1 to_id;
                          (chat_id2, ths2) =
                            (if chat_id1 = 0 \<and> m_is_send_by_messenger mime_parser \<and>
                                \<not> mrmailbox_is_contact_blocked_locked ths1 to_id
                             then mrmailbox_create_or_lookup_nchat_by_contact_id_locked E ths1 to_id
                             else (chat_id1, ths1))
                      in l1\<lparr>l_to_id := to_id, l_ths := ths2, l_chat_id := chat_id2\<rparr>)))
      in if l_chat_id l2 = 0 then l2\<lparr>l_chat_id := MR_CHAT_ID_TO_DEADDROP E\<rparr> else l2)"

text \<open>
  The timestamp, the message id and the test for a message that is already in the
  database. \<open>Inl\<close> is \<^verbatim>\<open>goto cleanup\<close>, \<open>Inr\<close> goes on. When the message is known, the
  transaction is rolled back at once only if folder or uid differ; otherwise it is left to
  the cleanup.
\<close>

definition imf_dedup ::
  "mr_env \<Rightarrow> string \<Rightarrow> nat \<Rightarrow> 32 word \<Rightarrow> imf_locals \<Rightarrow> imf_locals + imf_locals" where
  "imf_dedup E server_folder server_uid flags l =
     (let l1 = l\<lparr>l_message_timestamp :=
                   correct_bad_timestamp_locked E (l_ths l) (l_chat_id l) (l_from_id l)
                     (l_message_timestamp l) (flags AND MR_IMAP_SEEN E = 0)\<rparr>;
          mid = (case l_rfc724_mid l1 of
                   None \<Rightarrow> mr_create_incoming_rfc724_mid E (l_message_timestamp l1)
                             (l_from_id l1) (l_to_list l1)
                 | Some m \<Rightarrow> Some m)
      in case mid of
           None \<Rightarrow> Inl l1
         | Some rfc724_mid \<Rightarrow>
            (let l2 = l1\<lparr>l_rfc724_mid := Some rfc724_mid\<rparr>
             in case mrmailbox_rfc724_mid_exists_locked (l_ths l2) rfc724_mid of
                  Some (old_server_folder, old_server_uid) \<Rightarrow>
                    Inl (if old_server_folder \<noteq> server_folder \<or> old_server_uid \<noteq> server_uid
                         then l2\<lparr>l_ths := mrmailbox_update_server_uid_locked
                                            (mrsqlite3_rollback_locked (l_ths l2))
                                            rfc724_mid server_folder server_uid,
                                 l_transaction_pending := False\<rparr>
                         else l2)
                | None \<Rightarrow> Inr l2))"

text \<open>
  The body of the loop over \<^verbatim>\<open>m_parts\<close>, for one part: the row is inserted and
  the pair (\<^verbatim>\<open>chat_id\<close>, \<^verbatim>\<open>first_dblocal_id\<close>) is added to
  \<^verbatim>\<open>created_db_entries\<close>. \<open>None\<close> is the \<^verbatim>\<open>goto cleanup\<close> after a failed insert.
\<close>

definition imf_add_part ::
  "mrmimeparser \<Rightarrow> string \<Rightarrow> nat \<Rightarrow> string \<Rightarrow> mrmimepart \<Rightarrow> imf_locals \<Rightarrow> imf_locals option" where
  "imf_add_part mime_parser server_folder server_uid rfc724_mid part l =
     (let txt_raw =
            (if m_type part = MR_MSG_TEXT
             then Some (safe_strdup (m_subject mime_parser) @ [CHR 0x0A, CHR 0x0A] @ m_msg_raw part)
             else None)
      in case insert_msg (l_ths l)
                \<lparr>msg_id = 0, msg_rfc724_mid = rfc724_mid, msg_server_folder = server_folder,
                 msg_server_uid = server_uid, msg_chat_id = l_chat_id l,
                 msg_from_id = l_from_id l, msg_to_id = l_to_id l,
                 msg_timestamp = l_message_timestamp l, msg_type = m_type part,
                 msg_state = l_state l, msg_msgrmsg = m_is_send_by_messenger mime_parser,
                 msg_txt = safe_strdup (m_msg part), msg_txt_raw = safe_strdup txt_raw,
                 msg_param = m_param part, msg_bytes = m_bytes part\<rparr> of
           None \<Rightarrow> None
         | Some (rowid, ths1) \<Rightarrow>
            (let first = (if l_first_dblocal_id l = 0 then rowid else l_first_dblocal_id l)
             in Some (l\<lparr>l_ths := ths1, l_first_dblocal_id := first,
                        l_created_db_entries := l_created_db_entries l @ [(l_chat_id l, first)]\<rparr>)))"

text \<open>The loop over \<^verbatim>\<open>m_parts\<close>; \<open>Inl\<close> is \<^verbatim>\<open>goto cleanup\<close>.\<close>

fun imf_add_parts ::
  "mrmimeparser \<Rightarrow> string \<Rightarrow> nat \<Rightarrow> string \<Rightarrow> mrmimepart list \<Rightarrow> imf_locals
     \<Rightarrow> imf_locals + imf_locals" where
  "imf_add_parts mime_parser server_folder server_uid rfc724_mid [] l = Inr l"
| "imf_add_parts mime_parser server_folder server_uid rfc724_mid (part # rest) l =
     (case imf_add_part mime_parser server_folder server_uid rfc724_mid part l of
        None \<Rightarrow> Inl l
      | Some l1 \<Rightarrow> imf_add_parts mime_parser server_folder server_uid rfc724_mid rest l1)"

text \<open>\<^verbatim>\<open>%lu\<close> of \<^verbatim>\<open>mr_mprintf\<close>: a number in decimal.\<close>

fun decimal :: "nat \<Rightarrow> string" where
  "decimal n =
     (if n < 10 then [''0123456789'' ! n]
      else decimal (n div 10) @ [''0123456789'' ! (n mod 10)])"

declare decimal.simps [simp del]

text \<open>The ghost row for one of the recipients after the first.\<close>

definition imf_add_ghost ::
  "mr_env \<Rightarrow> mrmimeparser \<Rightarrow> string \<Rightarrow> string \<Rightarrow> string \<Rightarrow> nat \<Rightarrow> imf_locals
     \<Rightarrow> imf_locals option" where
  "imf_add_ghost E mime_parser ghost_rfc724_mid_str ghost_param ghost_txt ghost_to_id l =
     (let found = mrmailbox_lookup_real_nchat_by_contact_id_locked E (l_ths l) ghost_to_id;
          ghost_chat_id = (if found = 0 then MR_CHAT_ID_TO_DEADDROP E else found)
      in case insert_msg (l_ths l)
                \<lparr>msg_id = 0, msg_rfc724_mid = ghost_rfc724_mid_str, msg_server_folder = [],
                 msg_server_uid = 0, msg_chat_id = ghost_chat_id, msg_from_id = l_from_id l,
                 msg_to_id = ghost_to_id, msg_timestamp = l_message_timestamp l,
                 msg_type = MR_MSG_TEXT, msg_state = l_state l,
                 msg_msgrmsg = m_is_send_by_messenger mime_parser, msg_txt = ghost_txt,
                 msg_txt_raw = [], msg_param = ghost_param, msg_bytes = 0\<rparr> of
           None \<Rightarrow> None
         | Some (ghost_dblocal_id, ths1) \<Rightarrow>
            Some (l\<lparr>l_ths := ths1,
                     l_created_db_entries :=
                       l_created_db_entries l @ [(ghost_chat_id, ghost_dblocal_id)]\<rparr>))"

fun imf_add_ghosts ::
  "mr_env \<Rightarrow> mrmimeparser \<Rightarrow> string \<Rightarrow> string \<Rightarrow> string \<Rightarrow> nat list \<Rightarrow> imf_locals
     \<Rightarrow> imf_locals + imf_locals" where
  "imf_add_ghosts E mime_parser ghost_rfc724_mid_str ghost_param ghost_txt [] l = Inr l"
| "imf_add_ghosts E mime_parser ghost_rfc724_mid_str ghost_param ghost_txt (ghost_to_id # rest) l =
     (case imf_add_ghost E mime_parser ghost_rfc724_mid_str ghost_param ghost_txt ghost_to_id l of
        None \<Rightarrow> Inl l
      | Some l1 \<Rightarrow>
         imf_add_ghosts E mime_parser ghost_rfc724_mid_str ghost_param ghost_txt rest l1)"

definition imf_ghosts :: "mr_env \<Rightarrow> mrmimeparser \<Rightarrow> imf_locals \<Rightarrow> imf_locals + imf_locals" where
  "imf_ghosts E mime_parser l =
     (if \<not> l_incoming l \<and> \<not> l_is_group l \<and> length (l_to_list l) > 1 \<and> l_first_dblocal_id l \<noteq> 0
      then (case m_parts mime_parser of
              [] \<Rightarrow> Inr l
            | part # others \<Rightarrow>
               imf_add_ghosts E mime_parser
                 (MR_GHOST_ID_FORMAT E (l_first_dblocal_id l))
                 (''G='' @ decimal (l_first_dblocal_id l))
                 (mrmsg_get_summarytext_by_raw E (m_type part) (m_msg part) (m_param part))
                 (drop 1 (l_to_list l)) l)
      else Inr l)"

text \<open>The block "check event to send".\<close>

definition imf_event :: "mr_env \<Rightarrow> imf_locals \<Rightarrow> imf_locals" where
  "imf_event E l =
     (if l_incoming l \<and> l_state l = MR_IN_FRESH then
        (if l_from_id_blocked l then l\<lparr>l_create_event_to_send := None\<rparr>
         else if l_chat_id l = MR_CHAT_ID_DEADDROP E then
           (if mrsqlite3_get_config_int_locked (m_sql (l_ths l)) ''show_deaddrop'' 0 \<noteq> 0
            then l\<lparr>l_create_event_to_send := Some MR_EVENT_INCOMING_MSG\<rparr>
            else l)
         else l\<lparr>l_create_event_to_send := Some MR_EVENT_INCOMING_MSG\<rparr>)
      else l)"

text \<open>The block \<^verbatim>\<open>if( carray_count(mime_parser->m_parts) > 0 )\<close>.\<close>

definition imf_parts ::
  "mr_env \<Rightarrow> mrmimeparser \<Rightarrow> mailimf_field option list \<Rightarrow> string \<Rightarrow> nat \<Rightarrow> 32 word
     \<Rightarrow> imf_locals \<Rightarrow> imf_locals + imf_locals" where
  "imf_parts E mime_parser fld_list server_folder server_uid flags l =
     (let l1 = fold (imf_collect_field E) fld_list l;
          l2 = (if l_incoming l1 then imf_chat_incoming E mime_parser fld_list flags l1
                else imf_chat_outgoing E mime_parser fld_list l1)
      in case imf_dedup E server_folder server_uid flags l2 of
           Inl c \<Rightarrow> Inl c
         | Inr l3 \<Rightarrow>
            (case imf_add_parts mime_parser server_folder server_uid
                    (safe_strdup (l_rfc724_mid l3)) (m_parts mime_parser) l3 of
               Inl c \<Rightarrow> Inl c
             | Inr l4 \<Rightarrow>
                (case imf_ghosts E mime_parser l4 of
                   Inl c \<Rightarrow> Inl c
                 | Inr l5 \<Rightarrow> Inr (imf_event E l5))))"

text \<open>The body of the loop over \<^verbatim>\<open>m_reports\<close>, for one report.\<close>

definition imf_report :: "mr_env \<Rightarrow> int \<Rightarrow> mailmime_report option \<Rightarrow> imf_locals \<Rightarrow> imf_locals" where
  "imf_report E mdns_enabled report_root l =
     (case report_root of
        None \<Rightarrow> l
      | Some r \<Rightarrow>
         (case report_type r of
            None \<Rightarrow> l
          | Some pa_value \<Rightarrow>
             if pa_value = ''disposition-notification'' \<and> mp_count r \<ge> 2 \<and> mdns_enabled \<noteq> 0
             then
               (case mp_second r of
                  None \<Rightarrow> l
                | Some report_data \<Rightarrow>
                   if rd_is_message report_data \<and>
                      rd_subtype report_data = ''disposition-notification''
                   then
                     (case rd_fields report_data of
                        Some (Some of_disposition, Some of_org_msgid) \<Rightarrow>
                          (case mailimf_msg_id_parse E of_org_msgid of
                             None \<Rightarrow> l
                           | Some rfc724_mid \<Rightarrow>
                              (case mrmailbox_mdn_from_ext_locked E (l_ths l) (l_from_id l)
                                      rfc724_mid of
                                 None \<Rightarrow> l
                               | Some ((chat_id, read_id), ths1) \<Rightarrow>
                                  l\<lparr>l_ths := ths1,
                                    l_rr_event_to_send :=
                                      l_rr_event_to_send l @ [(chat_id, read_id)]\<rparr>))
                      | _ \<Rightarrow> l)
                   else l)
             else l))"

definition imf_reports :: "mr_env \<Rightarrow> mrmimeparser \<Rightarrow> imf_locals \<Rightarrow> imf_locals" where
  "imf_reports E mime_parser l =
     (if m_reports mime_parser \<noteq> [] then
        (let mdns_enabled =
               mrsqlite3_get_config_int_locked (m_sql (l_ths l)) ''mdns_enabled''
                 (MR_MDNS_DEFAULT_ENABLED E)
         in fold (imf_report E mdns_enabled) (m_reports mime_parser) l)
      else l)"

text \<open>
  \<^verbatim>\<open>receive_imf\<close> up to the label \<^verbatim>\<open>cleanup\<close>: the locals as they are when the code
  gets there. Calls of the callback made on the way (by the group resolver) are in the
  log of \<open>l_ths\<close>.
\<close>

definition receive_imf_body ::
  "mr_env \<Rightarrow> mrmailbox \<Rightarrow> mrmimeparser \<Rightarrow> string \<Rightarrow> nat \<Rightarrow> 32 word \<Rightarrow> imf_locals" where
  "receive_imf_body E ths mime_parser server_folder server_uid flags =
     (case m_header mime_parser of
        None \<Rightarrow> imf_locals_init E ths
      | Some fld_list \<Rightarrow>
         (let l1 = (imf_locals_init E ths)
                     \<lparr>l_ths := mrsqlite3_begin_transaction_locked (mrsqlite3_lock ths),
                      l_db_locked := True, l_transaction_pending := True\<rparr>;
              l2 = imf_to E fld_list (imf_from E fld_list (imf_direction fld_list l1))
          in case (if m_parts mime_parser \<noteq> []
                   then imf_parts E mime_parser fld_list server_folder server_uid flags l2
                   else Inr l2) of
               Inl c \<Rightarrow> c
             | Inr l3 \<Rightarrow>
                (let l4 = imf_reports E mime_parser l3
                 in l4\<lparr>l_ths := mrsqlite3_commit_locked (l_ths l4),
                       l_transaction_pending := False\<rparr>)))"

text \<open>
  The code after the label \<^verbatim>\<open>cleanup\<close>: roll back what is pending, unlock, and only
  then call the callback for the queued events.
\<close>

definition receive_imf_cleanup :: "imf_locals \<Rightarrow> mrmailbox" where
  "receive_imf_cleanup l =
     (let t1 = (if l_transaction_pending l then mrsqlite3_rollback_locked (l_ths l) else l_ths l);
          t2 = (if l_db_locked l then mrsqlite3_unlock t1 else t1);
          t3 = (case l_create_event_to_send l of
                  None \<Rightarrow> t2
                | Some ev \<Rightarrow> fold (\<lambda>e t. m_cb t ev (fst e) (snd e)) (l_created_db_entries l) t2)
      in fold (\<lambda>e t. m_cb t MR_EVENT_MSG_READ (fst e) (snd e)) (l_rr_event_to_send l) t3)"

text \<open>\<^verbatim>\<open>receive_imf\<close>, on the result of \<^verbatim>\<open>mrmimeparser_parse\<close>.\<close>

definition receive_imf ::
  "mr_env \<Rightarrow> mrmailbox \<Rightarrow> mrmimeparser \<Rightarrow> string \<Rightarrow> nat \<Rightarrow> 32 word \<Rightarrow> mrmailbox" where
  "receive_imf E ths mime_parser server_folder server_uid flags =
     receive_imf_cleanup (receive_imf_body E ths mime_parser server_folder server_uid flags)"

subsection \<open>Notions used in the properties of the ingestion\<close>


text \<open>The event code, the lock flag and the queue of created rows.\<close>

definition ev_queues :: "imf_locals \<Rightarrow> event option \<times> bool \<times> (nat \<times> nat) list" where
  "ev_queues l = (l_create_event_to_send l, l_db_locked l, l_created_db_entries l)"



subsection \<open>The wake lock\<close>

text \<open>
  The wake-lock part of \<^verbatim>\<open>mrmailbox_t\<close>: the counter \<^verbatim>\<open>m_wake_lock\<close>, a C
  \<^verbatim>\<open>int\<close> read as a 32-bit two's complement word, and the calls of the callback made
  by the two wake-lock functions so far, oldest first, each as (event, data1, data2). The
  mutex \<^verbatim>\<open>m_wake_lock_critical\<close> serialises the two functions and has no part in a
  sequential model.
\<close>

record wake_state =
  m_wake_lock :: "32 word"
  wake_cb :: "(event \<times> nat \<times> nat) list"

definition wake_event :: "nat \<Rightarrow> event \<times> nat \<times> nat" where
  "wake_event on_off = (MR_EVENT_WAKE_LOCK, on_off, 0)"

text \<open>\<^verbatim>\<open>mrmailbox_wake_lock\<close>; \<open>None\<close> is the NULL mailbox, for which nothing happens.\<close>

definition mrmailbox_wake_lock :: "wake_state option \<Rightarrow> wake_state option" where
  "mrmailbox_wake_lock mailbox =
     (case mailbox of
        None \<Rightarrow> None
      | Some m \<Rightarrow>
         (let m1 = m\<lparr>m_wake_lock := m_wake_lock m + 1\<rparr>
          in Some (if m_wake_lock m1 = 1 then m1\<lparr>wake_cb := wake_cb m1 @ [wake_event 1]\<rparr>
                   else m1)))"

text \<open>\<^verbatim>\<open>mrmailbox_wake_unlock\<close>: the test comes before the decrement.\<close>

definition mrmailbox_wake_unlock :: "wake_state option \<Rightarrow> wake_state option" where
  "mrmailbox_wake_unlock mailbox =
     (case mailbox of
        None \<Rightarrow> None
      | Some m \<Rightarrow>
         (let m1 = (if m_wake_lock m = 1 then m\<lparr>wake_cb := wake_cb m @ [wake_event 0]\<rparr> else m)
          in Some (m1\<lparr>m_wake_lock := m_wake_lock m1 - 1\<rparr>)))"

text \<open>A sequence of calls on one mailbox.\<close>

datatype wake_call = Wake_Lock | Wake_Unlock

fun wake_run :: "wake_call list \<Rightarrow> wake_state option \<Rightarrow> wake_state option" where
  "wake_run [] m = m"
| "wake_run (Wake_Lock # cs) m = wake_run cs (mrmailbox_wake_lock m)"
| "wake_run (Wake_Unlock # cs) m = wake_run cs (mrmailbox_wake_unlock m)"

subsection \<open>An example environment and mailbox\<close>

text \<open>
  Values for the macros as the project's headers of that time give them, the simplest
  collaborators, and a small mailbox: the user \<^verbatim>\<open>me@example.org\<close>, the contacts Alice
  (10), Bob (11) and Carol (12), and the group chat 10 "Team" with the group id
  \<^verbatim>\<open>abcdefghij1\<close> and the members SELF and Alice.
\<close>

definition example_env :: mr_env where
  "example_env =
     \<lparr>MR_VALID_ID_LEN = 11, MR_CHAT_ID_DEADDROP = 1, MR_CHAT_ID_TO_DEADDROP = 2,
      MR_CHAT_ID_TRASH = 3, MR_CHAT_ID_LAST_SPECIAL = 9, MR_CONTACT_ID_SELF = 1,
      MR_CONTACT_ID_LAST_SPECIAL = 9, MR_IMAP_SEEN = 1, MR_MDNS_DEFAULT_ENABLED = 1,
      MR_INVALID_TIMESTAMP = - 1,
      MR_GHOST_ID_FORMAT = (\<lambda>n. ''G@'' @ replicate n (CHR ''i'')),
      mr_decode_header_string = (\<lambda>s. s), mr_normalize_name = (\<lambda>s. s),
      mr_smeared_time_locked = 1000, mr_create_smeared_timestamp_locked = 1000,
      mr_create_incoming_rfc724_mid = (\<lambda>ts from_id to_list. None),
      mrmsg_get_summarytext_by_raw = (\<lambda>ty msg param. case msg of None \<Rightarrow> [] | Some x \<Rightarrow> x),
      mailimf_msg_id_parse = (\<lambda>s. Some s), uninit_check_self = False\<rparr>"

definition example_tables :: sql_tables where
  "example_tables =
     \<lparr>chats = [\<lparr>c_id = 10, c_type = MR_CHAT_GROUP, c_name = ''Team'', c_grpid = ''abcdefghij1''\<rparr>],
      chats_contacts = [(10, 1), (10, 10)],
      contacts =
        [\<lparr>ct_id = 10, ct_name = ''Alice'', ct_addr = ''alice@example.org'',
          ct_origin = MR_ORIGIN_OUTGOING_TO, ct_blocked = False\<rparr>,
         \<lparr>ct_id = 11, ct_name = ''Bob'', ct_addr = ''bob@example.org'',
          ct_origin = MR_ORIGIN_OUTGOING_TO, ct_blocked = False\<rparr>,
         \<lparr>ct_id = 12, ct_name = ''Carol'', ct_addr = ''carol@example.org'',
          ct_origin = MR_ORIGIN_OUTGOING_TO, ct_blocked = False\<rparr>],
      msgs = [], leftgrps = [],
      config = [(''configured_addr'', ''me@example.org'')]\<rparr>"

definition example_mailbox :: mrmailbox where
  "example_mailbox =
     \<lparr>m_sql = example_tables, m_locked = False, m_transaction = None, m_cb_log = []\<rparr>"

definition optional_field :: "string \<Rightarrow> string \<Rightarrow> mailimf_field option" where
  "optional_field name v =
     Some (MAILIMF_FIELD_OPTIONAL_FIELD (Some \<lparr>fld_name = name, fld_value = Some v\<rparr>))"


text \<open>
  Example messages: a text part; an incoming message of Alice to the group that renames it
  to "Crew"; an incoming message whose From: names the user first and Alice second, and one
  with the two in the other order; an incoming message of a stranger.
\<close>

definition example_part :: mrmimepart where
  "example_part =
     \<lparr>m_type = MR_MSG_TEXT, m_msg = Some ''hi'', m_msg_raw = ''hi'', m_param = [], m_bytes = 2\<rparr>"

definition mailbox_of :: "string \<Rightarrow> mailimf_mailbox option" where
  "mailbox_of addr = Some \<lparr>mb_display_name = None, mb_addr_spec = addr\<rparr>"

definition address_of :: "string \<Rightarrow> mailimf_address option" where
  "address_of addr = Some (MAILIMF_ADDRESS_MAILBOX (mailbox_of addr))"

definition example_rename_msg :: mrmimeparser where
  "example_rename_msg =
     \<lparr>m_header = Some
        [Some MAILIMF_FIELD_RETURN_PATH,
         Some (MAILIMF_FIELD_FROM (Some [mailbox_of ''alice@example.org''])),
         Some (MAILIMF_FIELD_TO (Some [address_of ''me@example.org''])),
         Some (MAILIMF_FIELD_MESSAGE_ID (Some (Some ''Gr.abcdefghij1.m1@example.org''))),
         Some (MAILIMF_FIELD_ORIG_DATE (Some 500)),
         optional_field ''Chat-Group-ID'' ''abcdefghij1'',
         optional_field ''Chat-Group-Name'' ''Crew'',
         optional_field ''Chat-Group-Name-Changed'' ''1''],
      m_parts = [example_part], m_reports = [], m_is_send_by_messenger = True,
      m_subject = Some ''Crew''\<rparr>"

definition example_from_msg :: "string list \<Rightarrow> mrmimeparser" where
  "example_from_msg senders =
     \<lparr>m_header = Some
        [Some MAILIMF_FIELD_RETURN_PATH,
         Some (MAILIMF_FIELD_FROM (Some (map mailbox_of senders))),
         Some (MAILIMF_FIELD_TO (Some [address_of ''bob@example.org''])),
         Some (MAILIMF_FIELD_MESSAGE_ID (Some (Some ''m2@example.org''))),
         Some (MAILIMF_FIELD_ORIG_DATE (Some 500))],
      m_parts = [example_part], m_reports = [], m_is_send_by_messenger = False,
      m_subject = Some ''hello''\<rparr>"


section \<open>Properties of the armor codec\<close>

lemma strncmp_eq_prefix: "strncmp_eq a b (length b) = prefix b a"
  unfolding strncmp_eq_def
  by (metis append_eq_conv_conj prefix_def take_all_iff order_refl append_take_drop_id)

lemma headerline_armor_header [simp]: "headerline (armor_header line i st) = headerline st"
  by (simp add: armor_header_def Let_def)

text \<open>Once set, the header line is never replaced.\<close>

lemma armor_scan_headerline_kept:
  "headerline st = Some h \<Longrightarrow> headerline (fst (armor_scan p line st)) = Some h"
  by (induction p arbitrary: line st) (auto split: option.splits)

text \<open>A header line the scan finds has passed the BEGIN test.\<close>

lemma armor_scan_is_headerline:
  "headerline st = None \<Longrightarrow> headerline (fst (armor_scan p line st)) = Some h \<Longrightarrow> is_headerline h"
proof (induction p arbitrary: line st)
  case Nil
  then show ?case by simp
next
  case (Cons c p)
  show ?case
  proof (cases "c = CHR 0x0A")
    case False
    with Cons show ?thesis by simp
  next
    case True
    show ?thesis
    proof (cases "is_headerline (dc_trim line)")
      case False
      with True Cons show ?thesis by (simp add: Let_def)
    next
      case yes: True
      have "headerline (fst (armor_scan p [] (st\<lparr>headerline := Some (dc_trim line)\<rparr>)))
              = Some (dc_trim line)"
        by (rule armor_scan_headerline_kept) simp
      with True yes Cons.prems show ?thesis by (simp add: Let_def)
    qed
  qed
qed

text \<open>The \<^verbatim>\<open>base64\<close> pointer points into the buffer: its text is a final part of it.\<close>

lemma armor_scan_base64_suffix:
  "snd (armor_scan p line st) = Some b \<Longrightarrow> suffix b (line @ p)"
proof (induction p arbitrary: line st)
  case Nil
  then show ?case by simp
next
  case (Cons c p)
  show ?case
  proof (cases "c = CHR 0x0A")
    case False
    with Cons.prems have "snd (armor_scan p (line @ [c]) st) = Some b" by simp
    from Cons.IH [OF this] show ?thesis by simp
  next
    case True
    show ?thesis
    proof (cases "headerline st = None")
      case h: True
      with True Cons.prems obtain st' where "snd (armor_scan p [] st') = Some b"
        by (auto simp: Let_def)
      from Cons.IH [OF this] show ?thesis
        by (metis append_Nil suffix_Cons suffix_append)
    next
      case h: False
      show ?thesis
      proof (cases "strspn line PGP_WS = length line")
        case True
        with \<open>c = CHR 0x0A\<close> h Cons.prems have "b = p" by auto
        then show ?thesis by (metis suffix_Cons suffix_append suffix_order.order_refl)
      next
        case ws: False
        show ?thesis
        proof (cases "strchr line (CHR '':'')")
          case None
          with ws \<open>c = CHR 0x0A\<close> h Cons.prems have "b = line @ c # p" by auto
          then show ?thesis by simp
        next
          case (Some i)
          with ws \<open>c = CHR 0x0A\<close> h Cons.prems
          have "snd (armor_scan p [] (armor_header line i st)) = Some b" by auto
          from Cons.IH [OF this] show ?thesis
            by (metis append_Nil suffix_Cons suffix_append)
        qed
      qed
    qed
  qed
qed

text \<open>The lines and the rest give back the text.\<close>

lemma unlines_lines_from: "unlines_lf (lines_from p line) (tail_from p line) = line @ p"
  by (induction p arbitrary: line) (simp_all add: unlines_lf_def)

lemma strchr_None_iff: "strchr s c = None \<longleftrightarrow> c \<notin> set s"
  by (simp add: strchr_def)

lemma armor_scan_body:
  "headerline st = Some h \<Longrightarrow>
   snd (armor_scan p line st) = body_of (lines_from p line) (tail_from p line)"
proof (induction p arbitrary: line st)
  case Nil
  show ?case by simp
next
  case (Cons c p)
  show ?case
  proof (cases "c = CHR 0x0A")
    case False
    with Cons show ?thesis by simp
  next
    case lf: True
    show ?thesis
    proof (cases "strspn line PGP_WS = length line")
      case True
      with lf Cons.prems show ?thesis
        using unlines_lines_from [of p "[]"] by simp
    next
      case ws: False
      show ?thesis
      proof (cases "strchr line (CHR '':'')")
        case None
        then have "CHR '':'' \<notin> set line" by (simp add: strchr_None_iff)
        with None ws lf Cons.prems show ?thesis
          using unlines_lines_from [of p "[]"] by (simp add: unlines_lf_def)
      next
        case (Some i)
        then have in_line: "CHR '':'' \<in> set line" by (simp add: strchr_def split: if_splits)
        have "headerline (armor_header line i st) = Some h" using Cons.prems by simp
        from Cons.IH [OF this, of "[]"] Some ws lf Cons.prems in_line show ?thesis by simp
      qed
    qed
  qed
qed

lemma armor_scan_lines:
  "headerline st = None \<Longrightarrow>
   (headerline (fst (armor_scan p line st)), snd (armor_scan p line st)) =
     armor_lines (lines_from p line) (tail_from p line)"
proof (induction p arbitrary: line st)
  case Nil
  then show ?case by (simp add: armor_lines_def)
next
  case (Cons c p)
  show ?case
  proof (cases "c = CHR 0x0A")
    case False
    with Cons show ?thesis by simp
  next
    case lf: True
    show ?thesis
    proof (cases "is_headerline (dc_trim line)")
      case False
      with lf Cons show ?thesis by (simp add: Let_def armor_lines_def)
    next
      case True
      let ?st = "st\<lparr>headerline := Some (dc_trim line)\<rparr>"
      have h: "headerline ?st = Some (dc_trim line)" by simp
      have 1: "headerline (fst (armor_scan p [] ?st)) = Some (dc_trim line)"
        by (rule armor_scan_headerline_kept [OF h])
      have 2: "snd (armor_scan p [] ?st) = body_of (lines_from p []) (tail_from p [])"
        by (rule armor_scan_body [OF h])
      from 1 2 True lf Cons.prems show ?thesis by (simp add: Let_def armor_lines_def)
    qed
  qed
qed

lemma dashes_nth: "j < 5 \<Longrightarrow> ''-----'' ! j = CHR ''-''"
proof -
  assume "j < 5"
  then have "''-----'' ! j \<in> set ''-----''" by (intro nth_mem) simp
  then show ?thesis by simp
qed

lemma is_headerline_iff:
  "is_headerline h \<longleftrightarrow> (\<exists>x. h = ''-----BEGIN '' @ x @ ''-----'')"
proof
  assume a: "is_headerline h"
  define r where "r = drop 11 h"
  from a have p: "take 11 h = ''-----BEGIN ''" and s: "take 5 (drop (length h - 5) h) = ''-----''"
    by (simp_all add: is_headerline_def strncmp_eq_def)
  have "h = take 11 h @ drop 11 h" by simp
  then have h: "h = ''-----BEGIN '' @ r" unfolding p r_def .
  have len: "length h = length r + 11" by (subst h) simp
  have s': "take 5 (drop (length r + 6) h) = ''-----''" using s unfolding len by (simp add: add.commute)
  have long: "5 \<le> length r"
  proof (rule ccontr)
    assume "\<not> 5 \<le> length r"
    then have k: "length r \<le> 4" by simp
    have "take 5 (drop (length r + 6) h) ! (4 - length r) = h ! 10"
      using k len by (simp add: nth_take)
    moreover have "h ! 10 = CHR '' ''" by (subst h) (simp add: nth_append)
    moreover have "''-----'' ! (4 - length r) = CHR ''-''" by (rule dashes_nth) simp
    ultimately show False unfolding s' by simp
  qed
  have A: "length ''-----BEGIN '' = 11" by simp
  have B: "drop (length r + 6) ''-----BEGIN '' = []"
    by (rule drop_all) (use long in simp)
  have C: "length r + 6 - 11 = length r - 5" by simp
  have "drop (length r + 6) (''-----BEGIN '' @ r) =
        drop (length r + 6) ''-----BEGIN '' @ drop (length r + 6 - length ''-----BEGIN '') r"
    by (rule drop_append)
  then have "drop (length r + 6) (''-----BEGIN '' @ r) = drop (length r - 5) r"
    unfolding A B C by simp
  then have d: "drop (length r + 6) h = drop (length r - 5) r"
    using h by simp
  have "length (drop (length r - 5) r) = 5" using long by simp
  then have "take 5 (drop (length r - 5) r) = drop (length r - 5) r" by simp
  with s' d have e: "drop (length r - 5) r = ''-----''" by simp
  have "r = take (length r - 5) r @ drop (length r - 5) r" by simp
  then have "r = take (length r - 5) r @ ''-----''" unfolding e .
  with h have "h = ''-----BEGIN '' @ take (length r - 5) r @ ''-----''" by simp
  then show "\<exists>x. h = ''-----BEGIN '' @ x @ ''-----''" by blast
next
  assume "\<exists>x. h = ''-----BEGIN '' @ x @ ''-----''"
  then obtain x where h: "h = ''-----BEGIN '' @ x @ ''-----''" by blast
  show "is_headerline h"
    unfolding h by (simp add: is_headerline_def strncmp_eq_def)
qed

text \<open>
  Claim C1, as the code has it. For every non-NULL buffer \<open>b\<close> (and a non-NULL
  \<^verbatim>\<open>ret_headerline\<close>), with \<open>t\<close> the buffer's text without carriage returns:
  \<^verbatim>\<open>dc_split_armored_data\<close> returns true exactly when \<open>t\<close> has a complete line that,
  trimmed, reads \<^verbatim>\<open>-----BEGIN \<close>\<open>x\<close>\<^verbatim>\<open>-----\<close> (the first such line is the header line),
  a body starts after it (after the first blank line or at the first line without a
  colon), \<^verbatim>\<open>-----END \<close> occurs in the body, and the text after its first occurrence
  starts with \<open>x\<close>\<^verbatim>\<open>-----\<close>. When it returns true, the header-line slice is the trimmed
  header line, the body is a final part of \<open>t\<close>, and the base64 slice is the trimmed text
  of the body before \<^verbatim>\<open>-----END \<close>. When it returns false the base64 slice stays
  NULL. An empty base64 text is no reason to fail.
\<close>

theorem dc_split_armored_data_result:
  fixes b :: string
  defines "t \<equiv> dc_remove_cr_chars (takeWhile (\<lambda>c. c \<noteq> CHR 0x00) b)"
  defines "r \<equiv> dc_split_armored_data (Some b) True"
  shows "(success r \<longleftrightarrow>
           (\<exists>x base64 i.
              armor_lines (lines_from t []) (tail_from t []) =
                (Some (''-----BEGIN '' @ x @ ''-----''), Some base64) \<and>
              strstr base64 ''-----END '' = Some i \<and>
              prefix (x @ ''-----'') (drop (i + 9) base64))) \<and>
         (success r \<longrightarrow>
           (\<exists>h base64 i.
              armor_lines (lines_from t []) (tail_from t []) = (Some h, Some base64) \<and>
              strstr base64 ''-----END '' = Some i \<and> suffix base64 t \<and>
              ret_headerline r = Some h \<and> ret_base64 r = Some (dc_trim (take i base64)))) \<and>
         (\<not> success r \<longrightarrow> ret_base64 r = None)"
proof -
  obtain st bo where sc: "armor_scan t [] no_slices = (st, bo)" by (cases "armor_scan t [] no_slices")
  have r: "r = armor_finish (st, bo)"
    using sc by (simp add: r_def dc_split_armored_data_def t_def)
  have al: "armor_lines (lines_from t []) (tail_from t []) = (headerline st, bo)"
    using armor_scan_lines [of no_slices t "[]"] sc by (simp add: no_slices_def)
  have sf: "suffix x t" if "bo = Some x" for x
    using armor_scan_base64_suffix [of t "[]" no_slices x] that sc by simp
  show ?thesis
  proof (cases "headerline st")
    case None
    then show ?thesis unfolding r al by (simp add: armor_finish_def armor_failed_def)
  next
    case (Some h)
    have "is_headerline h"
      using armor_scan_is_headerline [of no_slices t "[]" h] Some sc by (simp add: no_slices_def)
    then obtain x where h: "h = ''-----BEGIN '' @ x @ ''-----''"
      unfolding is_headerline_iff by blast
    have d: "drop 11 h = x @ ''-----''" unfolding h by simp
    have cmp: "strncmp_eq a (drop 11 h) (length (drop 11 h)) = prefix (x @ ''-----'') a" for a
      unfolding strncmp_eq_prefix d ..
    show ?thesis
    proof (cases bo)
      case None
      with Some show ?thesis unfolding r al by (simp add: armor_finish_def armor_failed_def)
    next
      case bs: (Some base64)
      show ?thesis
      proof (cases "strstr base64 ''-----END ''")
        case None
        with Some bs show ?thesis unfolding r al by (simp add: armor_finish_def armor_failed_def)
      next
        case i: (Some i)
        define P where "P = prefix (x @ ''-----'') (drop (i + 9) base64)"
        have rr: "r = (if \<not> P then armor_failed st
             else \<lparr>success = True, ret_headerline = Some h,
                   ret_setupcodebegin = setupcodebegin st,
                   ret_preferencrypt = preferencrypt st,
                   ret_base64 = Some (dc_trim (take i base64))\<rparr>)"
          unfolding r armor_finish_def P_def using Some bs i cmp by simp
        have al': "armor_lines (lines_from t []) (tail_from t []) = (Some h, Some base64)"
          unfolding al Some bs ..
        have ex1: "(\<exists>y b' j. (Some h, Some base64) = (Some (''-----BEGIN '' @ y @ ''-----''), Some b') \<and>
                      strstr b' ''-----END '' = Some j \<and>
                      prefix (y @ ''-----'') (drop (j + 9) b')) = P"
          unfolding h P_def using i by auto
        have ex2: "\<exists>h' b' j. (Some h, Some base64) = (Some h', Some b') \<and>
                      strstr b' ''-----END '' = Some j \<and> suffix b' t \<and>
                      Some h = Some h' \<and>
                      Some (dc_trim (take i base64)) = Some (dc_trim (take j b'))"
          using i sf [OF bs] by blast
        show ?thesis
        proof (cases P)
          case True
          then have r1: "success r" "ret_headerline r = Some h"
            "ret_base64 r = Some (dc_trim (take i base64))"
            unfolding rr by simp_all
          show ?thesis unfolding al' ex1 using True ex2 r1 by simp
        next
          case False
          then have r0: "\<not> success r" "ret_base64 r = None"
            unfolding rr by (simp_all add: armor_failed_def)
          show ?thesis unfolding al' ex1 using False r0 by simp
        qed
      qed
    qed
  qed
qed

theorem dc_split_armored_data_result_witness:
  "success (dc_split_armored_data (Some (''-----BEGIN PGP MESSAGE-----\<newline>Version: 1\<newline>'' @
      ''Autocrypt-Prefer-Encrypt: mutual\<newline>\<newline>AAAA\<newline>-----END PGP MESSAGE-----\<newline>'')) True) \<and>
   ret_headerline (dc_split_armored_data (Some (''-----BEGIN PGP MESSAGE-----\<newline>Version: 1\<newline>'' @
      ''Autocrypt-Prefer-Encrypt: mutual\<newline>\<newline>AAAA\<newline>-----END PGP MESSAGE-----\<newline>'')) True) =
     Some ''-----BEGIN PGP MESSAGE-----'' \<and>
   ret_base64 (dc_split_armored_data (Some (''-----BEGIN PGP MESSAGE-----\<newline>Version: 1\<newline>'' @
      ''Autocrypt-Prefer-Encrypt: mutual\<newline>\<newline>AAAA\<newline>-----END PGP MESSAGE-----\<newline>'')) True) = Some ''AAAA'' \<and>
   armor_lines
     (lines_from (''-----BEGIN PGP MESSAGE-----\<newline>Version: 1\<newline>'' @
        ''Autocrypt-Prefer-Encrypt: mutual\<newline>\<newline>AAAA\<newline>-----END PGP MESSAGE-----\<newline>'') [])
     (tail_from (''-----BEGIN PGP MESSAGE-----\<newline>Version: 1\<newline>'' @
        ''Autocrypt-Prefer-Encrypt: mutual\<newline>\<newline>AAAA\<newline>-----END PGP MESSAGE-----\<newline>'') []) =
     (Some ''-----BEGIN PGP MESSAGE-----'', Some ''AAAA\<newline>-----END PGP MESSAGE-----\<newline>'')"
proof -
  let ?b = "''-----BEGIN PGP MESSAGE-----\<newline>Version: 1\<newline>'' @
      ''Autocrypt-Prefer-Encrypt: mutual\<newline>\<newline>AAAA\<newline>-----END PGP MESSAGE-----\<newline>''"
  have e: "dc_split_armored_data (Some ?b) True =
    \<lparr>success = True, ret_headerline = Some ''-----BEGIN PGP MESSAGE-----'',
     ret_setupcodebegin = None, ret_preferencrypt = Some ''mutual'',
     ret_base64 = Some ''AAAA''\<rparr>"
    by code_simp
  have t: "dc_remove_cr_chars (takeWhile (\<lambda>c. c \<noteq> CHR 0x00) ?b) = ?b" by code_simp
  have a: "armor_lines (lines_from ?b []) (tail_from ?b []) =
     (Some ''-----BEGIN PGP MESSAGE-----'', Some ''AAAA\<newline>-----END PGP MESSAGE-----\<newline>'')"
    by code_simp
  from conjunct1 [OF conjunct2 [OF dc_split_armored_data_result [of ?b]]] e
  have "\<exists>h base64 i.
              armor_lines (lines_from ?b []) (tail_from ?b []) = (Some h, Some base64) \<and>
              strstr base64 ''-----END '' = Some i \<and> suffix base64 ?b \<and>
              ret_headerline (dc_split_armored_data (Some ?b) True) = Some h \<and>
              ret_base64 (dc_split_armored_data (Some ?b) True) = Some (dc_trim (take i base64))"
    unfolding t by simp
  then have "ret_headerline (dc_split_armored_data (Some ?b) True) = Some ''-----BEGIN PGP MESSAGE-----''"
    unfolding a by auto
  with e a show ?thesis by simp
qed

text \<open>
  The claim as the spec states it fails: a buffer whose body is empty, between a matching
  BEGIN and END line, is accepted, with an empty base64 slice.
\<close>

theorem dc_split_armored_data_empty_base64:
  "success (dc_split_armored_data (Some ''-----BEGIN X-----\<newline>\<newline>-----END X-----\<newline>'') True) \<and>
   ret_base64 (dc_split_armored_data (Some ''-----BEGIN X-----\<newline>\<newline>-----END X-----\<newline>'') True) = Some []"
  by code_simp

section \<open>Properties of the group resolver\<close>

lemma strchr_Some_iff: "strchr s c = Some i \<longleftrightarrow> c \<in> set s \<and> i = length (takeWhile (\<lambda>d. d \<noteq> c) s)"
  by (auto simp: strchr_def)





















lemma in_chat_add [simp]:
  "mrmailbox_is_contact_in_chat_locked (mrmailbox_add_contact_to_chat_locked m c x) c' y \<longleftrightarrow>
   mrmailbox_is_contact_in_chat_locked m c' y \<or> (c' = c \<and> y = x)"
  by (auto simp: mrmailbox_is_contact_in_chat_locked_def mrmailbox_add_contact_to_chat_locked_def)

lemma in_chat_delete [simp]:
  "mrmailbox_is_contact_in_chat_locked (delete_chat_contacts m c) c' y \<longleftrightarrow>
   c' \<noteq> c \<and> mrmailbox_is_contact_in_chat_locked m c' y"
  by (auto simp: mrmailbox_is_contact_in_chat_locked_def delete_chat_contacts_def)

lemma in_chat_m_cb [simp]:
  "mrmailbox_is_contact_in_chat_locked (m_cb m e a b) c' y =
   mrmailbox_is_contact_in_chat_locked m c' y"
  by (simp add: mrmailbox_is_contact_in_chat_locked_def m_cb_def)

lemma in_chat_update_chat_name [simp]:
  "mrmailbox_is_contact_in_chat_locked (update_chat_name m n c) c' y =
   mrmailbox_is_contact_in_chat_locked m c' y"
  by (simp add: mrmailbox_is_contact_in_chat_locked_def update_chat_name_def)

lemma grp_keeps_cong:
  "contacts (m_sql m') = contacts (m_sql m) \<Longrightarrow> grp_keeps m' self skip x = grp_keeps m self skip x"
  by (simp add: grp_keeps_def mrmailbox_contact_addr_equals_locked_def cong: option.case_cong)

lemma contacts_add [simp]:
  "contacts (m_sql (mrmailbox_add_contact_to_chat_locked m c x)) = contacts (m_sql m)"
  by (simp add: mrmailbox_add_contact_to_chat_locked_def)

lemma contacts_delete [simp]: "contacts (m_sql (delete_chat_contacts m c)) = contacts (m_sql m)"
  by (simp add: delete_chat_contacts_def)

lemma contacts_m_cb [simp]: "contacts (m_sql (m_cb m e a b)) = contacts (m_sql m)"
  by (simp add: m_cb_def)

lemma contacts_update_chat_name [simp]:
  "contacts (m_sql (update_chat_name m n c)) = contacts (m_sql m)"
  by (simp add: update_chat_name_def)

lemma chats_add [simp]:
  "chats (m_sql (mrmailbox_add_contact_to_chat_locked m c x)) = chats (m_sql m)"
  by (simp add: mrmailbox_add_contact_to_chat_locked_def)

lemma chats_delete [simp]: "chats (m_sql (delete_chat_contacts m c)) = chats (m_sql m)"
  by (simp add: delete_chat_contacts_def)

lemma chats_m_cb [simp]: "chats (m_sql (m_cb m e a b)) = chats (m_sql m)"
  by (simp add: m_cb_def)

lemma grp_add_to_list_contacts [simp]:
  "contacts (m_sql (grp_add_to_list m cid self skip tos)) = contacts (m_sql m)"
  by (induction tos arbitrary: m) simp_all

lemma grp_add_to_list_chats [simp]:
  "chats (m_sql (grp_add_to_list m cid self skip tos)) = chats (m_sql m)"
  by (induction tos arbitrary: m) simp_all

lemma grp_add_to_list_in_chat:
  "mrmailbox_is_contact_in_chat_locked (grp_add_to_list m cid self skip tos) c' y \<longleftrightarrow>
   mrmailbox_is_contact_in_chat_locked m c' y \<or> (c' = cid \<and> y \<in> set tos \<and> grp_keeps m self skip y)"
proof (induction tos arbitrary: m)
  case Nil
  show ?case by simp
next
  case (Cons t tos)
  let ?m = "if grp_keeps m self skip t then mrmailbox_add_contact_to_chat_locked m cid t else m"
  have k: "grp_keeps ?m self skip y = grp_keeps m self skip y"
    by (rule grp_keeps_cong) simp
  show ?case
    unfolding grp_add_to_list.simps Cons.IH [of ?m] k by auto
qed

lemma grp_recreate_contacts [simp]:
  "contacts (m_sql (grp_recreate_member_list E m cid self skip from_id tos)) = contacts (m_sql m)"
  by (simp add: grp_recreate_member_list_def Let_def)

lemma grp_recreate_chats [simp]:
  "chats (m_sql (grp_recreate_member_list E m cid self skip from_id tos)) = chats (m_sql m)"
  by (simp add: grp_recreate_member_list_def Let_def)

lemma grp_recreate_in_chat:
  "mrmailbox_is_contact_in_chat_locked
     (grp_recreate_member_list E m cid self skip from_id tos) cid y \<longleftrightarrow>
   (y = MR_CONTACT_ID_SELF E \<and> (case skip of None \<Rightarrow> True | Some s \<Rightarrow> \<not> strcasecmp_eq self s)) \<or>
   (y = from_id \<and> from_id > MR_CONTACT_ID_LAST_SPECIAL E \<and> grp_keeps m self skip from_id) \<or>
   (y \<in> set tos \<and> grp_keeps m self skip y)"
proof -
  let ?m1 = "delete_chat_contacts m cid"
  let ?m2 = "if (case skip of None \<Rightarrow> True | Some s \<Rightarrow> \<not> strcasecmp_eq self s)
             then mrmailbox_add_contact_to_chat_locked ?m1 cid (MR_CONTACT_ID_SELF E) else ?m1"
  let ?m3 = "if from_id > MR_CONTACT_ID_LAST_SPECIAL E \<and> grp_keeps ?m2 self skip from_id
             then mrmailbox_add_contact_to_chat_locked ?m2 cid from_id else ?m2"
  have k2: "grp_keeps ?m2 self skip x = grp_keeps m self skip x" for x
    by (rule grp_keeps_cong) simp
  have k3: "grp_keeps ?m3 self skip x = grp_keeps m self skip x" for x
    by (rule grp_keeps_cong) simp
  have "mrmailbox_is_contact_in_chat_locked
          (grp_recreate_member_list E m cid self skip from_id tos) cid y \<longleftrightarrow>
        mrmailbox_is_contact_in_chat_locked (grp_add_to_list ?m3 cid self skip tos) cid y"
    by (simp add: grp_recreate_member_list_def Let_def)
  also have "\<dots> \<longleftrightarrow> mrmailbox_is_contact_in_chat_locked ?m3 cid y \<or>
                     (y \<in> set tos \<and> grp_keeps m self skip y)"
    unfolding grp_add_to_list_in_chat k3 by simp
  also have "mrmailbox_is_contact_in_chat_locked ?m3 cid y \<longleftrightarrow>
       (y = MR_CONTACT_ID_SELF E \<and> (case skip of None \<Rightarrow> True | Some s \<Rightarrow> \<not> strcasecmp_eq self s)) \<or>
       (y = from_id \<and> from_id > MR_CONTACT_ID_LAST_SPECIAL E \<and> grp_keeps m self skip from_id)"
    unfolding k2 by auto
  finally show ?thesis by blast
qed

text \<open>What the command part does to the member list when it recreates it.\<close>

lemma grp_commands_in_chat:
  assumes "recreate \<or> X_MrAddToGrp g \<noteq> None \<or> X_MrRemoveFromGrp g \<noteq> None"
  shows "mrmailbox_is_contact_in_chat_locked
           (snd (grp_commands E m sbm g self cid recreate from_id tos)) cid y \<longleftrightarrow>
         (y = MR_CONTACT_ID_SELF E \<and>
            (case X_MrRemoveFromGrp g of None \<Rightarrow> True | Some s \<Rightarrow> \<not> strcasecmp_eq self s)) \<or>
         (y = from_id \<and> from_id > MR_CONTACT_ID_LAST_SPECIAL E \<and>
            grp_keeps m self (X_MrRemoveFromGrp g) from_id) \<or>
         (y \<in> set tos \<and> grp_keeps m self (X_MrRemoveFromGrp g) y)"
proof -
  define m1 where "m1 = (if X_MrAddToGrp g \<noteq> None \<or> X_MrRemoveFromGrp g \<noteq> None then m
       else if X_MrGrpNameChanged g \<and> (case grpname g of None \<Rightarrow> False | Some n \<Rightarrow> length n < 200)
       then m_cb (update_chat_name m (the (grpname g)) cid) MR_EVENT_CHAT_MODIFIED cid 0
       else m)"
  have c: "contacts (m_sql m1) = contacts (m_sql m)" by (simp add: m1_def)
  have k: "grp_keeps m1 self (X_MrRemoveFromGrp g) x = grp_keeps m self (X_MrRemoveFromGrp g) x" for x
    by (rule grp_keeps_cong) (rule c)
  have "snd (grp_commands E m sbm g self cid recreate from_id tos) =
        grp_recreate_member_list E m1 cid self (X_MrRemoveFromGrp g) from_id tos"
    using assms by (auto simp: grp_commands_def m1_def Let_def)
  then show ?thesis by (simp only: grp_recreate_in_chat k)
qed





lemma insert_chat_eq:
  "insert_chat m ty n gid =
   Some (new_rowid (map c_id (chats (m_sql m))),
         m\<lparr>m_sql := (m_sql m)\<lparr>chats := chats (m_sql m) @
           [\<lparr>c_id = new_rowid (map c_id (chats (m_sql m))), c_type = ty, c_name = n,
             c_grpid = gid\<rparr>]\<rparr>\<rparr>)"
  by (simp add: insert_chat_def Let_def)

text \<open>The resolver when no chat has the group id and the creation test holds.\<close>

lemma grp_lookup_create:
  assumes "select_chat_by_grpid mb grpid = 0"
    and "grp_may_create g create (mrmailbox_group_explicitly_left_locked mb grpid)
           (mrsqlite3_get_config_locked (m_sql mb) ''configured_addr'' [])"
  defines "rowid \<equiv> new_rowid (map c_id (chats (m_sql mb)))"
  defines "m1 \<equiv> mb\<lparr>m_sql := (m_sql mb)\<lparr>chats := chats (m_sql mb) @
           [\<lparr>c_id = rowid, c_type = MR_CHAT_GROUP, c_name = the (grpname g), c_grpid = grpid\<rparr>]\<rparr>\<rparr>"
  shows "grp_lookup E mb sbm g grpid create from_id tos =
         (if rowid \<le> MR_CHAT_ID_LAST_SPECIAL E
          then (if mrmailbox_group_explicitly_left_locked mb grpid then MR_CHAT_ID_TRASH E else 0, m1)
          else grp_commands E m1 sbm g
                 (mrsqlite3_get_config_locked (m_sql mb) ''configured_addr'' []) rowid True
                 from_id tos)"
  using assms(1,2) unfolding grp_lookup_def insert_chat_eq rowid_def m1_def Let_def
  by simp


text \<open>The resolver when a chat above the special ids has the group id and the sender is a member.\<close>

lemma grp_lookup_existing:
  assumes "select_chat_by_grpid mb grpid = cid" and "cid > MR_CHAT_ID_LAST_SPECIAL E"
    and "mrmailbox_is_contact_in_chat_locked mb cid from_id"
  shows "grp_lookup E mb sbm g grpid create from_id tos =
         grp_commands E mb sbm g
           (mrsqlite3_get_config_locked (m_sql mb) ''configured_addr'' []) cid False from_id tos"
  using assms unfolding grp_lookup_def Let_def by auto

lemma lookup_group_grpid:
  "grp_grpid (grp_walk E fl) = Some grpid \<Longrightarrow>
   lookup_group_by_grpid_locked E mb fl sbm create from_id tos =
   grp_lookup E mb sbm (grp_walk E fl) grpid create from_id tos"
  by (simp add: lookup_group_by_grpid_locked_def Let_def)

lemma grp_commands_rename:
  assumes "X_MrAddToGrp g = None" "X_MrRemoveFromGrp g = None" "X_MrGrpNameChanged g"
    and "grpname g = Some n"
  shows "snd (grp_commands E m sbm g self cid False from_id tos) =
         (if length n < 200 then m_cb (update_chat_name m n cid) MR_EVENT_CHAT_MODIFIED cid 0 else m)"
  unfolding grp_commands_def Let_def using assms by (simp split: prod.splits)

lemma update_chat_name_rows:
  "\<forall>r\<in>set (chats (m_sql (m_cb (update_chat_name mb n cid) e a b))). c_id r = cid \<longrightarrow> c_name r = n"
proof (intro ballI impI)
  fix r
  assume mem: "r \<in> set (chats (m_sql (m_cb (update_chat_name mb n cid) e a b)))"
    and c: "c_id r = cid"
  have "chats (m_sql (m_cb (update_chat_name mb n cid) e a b)) =
        map (\<lambda>r. if c_id r = cid then r\<lparr>c_name := n\<rparr> else r) (chats (m_sql mb))"
    by (simp add: update_chat_name_def)
  with mem have "r \<in> (\<lambda>r. if c_id r = cid then r\<lparr>c_name := n\<rparr> else r) ` set (chats (m_sql mb))"
    by (simp only: set_map)
  then obtain x where r: "r = (if c_id x = cid then x\<lparr>c_name := n\<rparr> else x)"
    by (rule imageE)
  show "c_name r = n"
  proof (cases "c_id x = cid")
    case True
    with r show ?thesis by simp
  next
    case False
    with r c show ?thesis by simp
  qed
qed

lemma update_chat_name_log:
  "m_cb_log (m_cb (update_chat_name mb n cid) e a b) =
   m_cb_log mb @ [\<lparr>cb_event = e, cb_data1 = a, cb_data2 = b,
                cb_locked = m_locked mb, cb_in_transaction = (m_transaction mb \<noteq> None)\<rparr>]"
  by (simp add: m_cb_def update_chat_name_def)



text \<open>
  Claim C4, as the code has it. Let the header give the group id of a chat \<open>cid\<close> above
  the special ids of which the sender is a member, with neither an Added nor a Removed
  header, with \<^verbatim>\<open>Chat-Group-Name-Changed\<close> (or \<^verbatim>\<open>X-MrGrpNameChanged\<close>) and with the
  decoded group name \<open>n\<close>. If \<open>n\<close> has fewer than 200 characters, the
  resolver renames the chat to \<open>n\<close> and calls the callback once, with CHAT\_MODIFIED
  for \<open>cid\<close>, and does nothing else to the mailbox. If \<open>n\<close> has 200 characters or more,
  the resolver leaves the mailbox as it was: no rename, no event.
\<close>

theorem grp_name_changed:
  fixes E :: mr_env and fl :: "mailimf_field option list" and mb :: mrmailbox
    and sbm create :: bool and from_id :: nat and to_list :: "nat list"
  defines "g \<equiv> grp_walk E fl"
  defines "res \<equiv> lookup_group_by_grpid_locked E mb fl sbm create from_id to_list"
  assumes gid: "grp_grpid g = Some grpid"
    and cid: "select_chat_by_grpid mb grpid = cid" "cid > MR_CHAT_ID_LAST_SPECIAL E"
    and mem: "mrmailbox_is_contact_in_chat_locked mb cid from_id"
    and plain: "X_MrAddToGrp g = None" "X_MrRemoveFromGrp g = None"
    and changed: "X_MrGrpNameChanged g" and name: "grpname g = Some n"
  shows "(length n < 200 \<longrightarrow>
            snd res = m_cb (update_chat_name mb n cid) MR_EVENT_CHAT_MODIFIED cid 0 \<and>
            (\<forall>r\<in>set (chats (m_sql (snd res))). c_id r = cid \<longrightarrow> c_name r = n) \<and>
            m_cb_log (snd res) = m_cb_log mb @
              [\<lparr>cb_event = MR_EVENT_CHAT_MODIFIED, cb_data1 = cid, cb_data2 = 0,
                cb_locked = m_locked mb, cb_in_transaction = (m_transaction mb \<noteq> None)\<rparr>]) \<and>
         (200 \<le> length n \<longrightarrow> snd res = mb)"
proof -
  let ?self = "mrsqlite3_get_config_locked (m_sql mb) ''configured_addr'' []"
  have "res = grp_lookup E mb sbm g grpid create from_id to_list"
    unfolding res_def g_def using gid [unfolded g_def] by (rule lookup_group_grpid)
  also have "\<dots> = grp_commands E mb sbm g ?self cid False from_id to_list"
    by (rule grp_lookup_existing [OF cid mem])
  finally have "snd res = snd (grp_commands E mb sbm g ?self cid False from_id to_list)"
    by (rule arg_cong)
  also have "\<dots> = (if length n < 200
                   then m_cb (update_chat_name mb n cid) MR_EVENT_CHAT_MODIFIED cid 0 else mb)"
    by (rule grp_commands_rename [OF plain changed name])
  finally have r: "snd res = (if length n < 200
                   then m_cb (update_chat_name mb n cid) MR_EVENT_CHAT_MODIFIED cid 0 else mb)" .
  show ?thesis
  proof (intro conjI impI)
    assume l: "length n < 200"
    then have s: "snd res = m_cb (update_chat_name mb n cid) MR_EVENT_CHAT_MODIFIED cid 0"
      using r by simp
    show "snd res = m_cb (update_chat_name mb n cid) MR_EVENT_CHAT_MODIFIED cid 0" by (rule s)
    show "\<forall>r\<in>set (chats (m_sql (snd res))). c_id r = cid \<longrightarrow> c_name r = n"
      unfolding s by (rule update_chat_name_rows)
    show "m_cb_log (snd res) = m_cb_log mb @
              [\<lparr>cb_event = MR_EVENT_CHAT_MODIFIED, cb_data1 = cid, cb_data2 = 0,
                cb_locked = m_locked mb, cb_in_transaction = (m_transaction mb \<noteq> None)\<rparr>]"
      unfolding s by (rule update_chat_name_log)
  next
    assume "200 \<le> length n"
    then show "snd res = mb" using r by simp
  qed
qed

theorem grp_name_changed_witness:
  "length ''Crew'' < 200 \<and>
   chats (m_sql (snd (lookup_group_by_grpid_locked example_env example_mailbox
      [optional_field ''Chat-Group-ID'' ''abcdefghij1'',
       optional_field ''Chat-Group-Name'' ''Crew'',
       optional_field ''Chat-Group-Name-Changed'' ''1''] True True 10 []))) =
     [\<lparr>c_id = 10, c_type = MR_CHAT_GROUP, c_name = ''Crew'', c_grpid = ''abcdefghij1''\<rparr>] \<and>
   m_cb_log (snd (lookup_group_by_grpid_locked example_env example_mailbox
      [optional_field ''Chat-Group-ID'' ''abcdefghij1'',
       optional_field ''Chat-Group-Name'' ''Crew'',
       optional_field ''Chat-Group-Name-Changed'' ''1''] True True 10 [])) =
     [\<lparr>cb_event = MR_EVENT_CHAT_MODIFIED, cb_data1 = 10, cb_data2 = 0,
       cb_locked = False, cb_in_transaction = False\<rparr>]"
proof -
  let ?fl = "[optional_field ''Chat-Group-ID'' ''abcdefghij1'',
              optional_field ''Chat-Group-Name'' ''Crew'',
              optional_field ''Chat-Group-Name-Changed'' ''1'']"
  let ?g = "grp_walk example_env ?fl"
  have gid: "grp_grpid ?g = Some ''abcdefghij1''" by code_simp
  have cid: "select_chat_by_grpid example_mailbox ''abcdefghij1'' = 10" by code_simp
  have hi: "10 > MR_CHAT_ID_LAST_SPECIAL example_env" by code_simp
  have mem: "mrmailbox_is_contact_in_chat_locked example_mailbox 10 10" by code_simp
  have ad: "X_MrAddToGrp ?g = None" by code_simp
  have rm: "X_MrRemoveFromGrp ?g = None" by code_simp
  have ch: "X_MrGrpNameChanged ?g" by code_simp
  have n: "grpname ?g = Some ''Crew''" by code_simp
  have short: "length ''Crew'' < 200" by simp
  have c: "chats (m_sql (m_cb (update_chat_name example_mailbox ''Crew'' 10)
             MR_EVENT_CHAT_MODIFIED 10 0)) =
           [\<lparr>c_id = 10, c_type = MR_CHAT_GROUP, c_name = ''Crew'', c_grpid = ''abcdefghij1''\<rparr>]"
    by code_simp
  have lk: "m_locked example_mailbox = False" by code_simp
  have tx: "m_transaction example_mailbox = None" by code_simp
  have lg: "m_cb_log example_mailbox = []" by code_simp
  note t = grp_name_changed [where E = example_env and fl = ?fl and mb = example_mailbox
      and create = True and sbm = True and from_id = 10 and to_list = "[]",
      OF gid cid hi mem ad rm ch n]
  from conjunct1 [OF t] short
  have s: "snd (lookup_group_by_grpid_locked example_env example_mailbox ?fl True True 10 []) =
           m_cb (update_chat_name example_mailbox ''Crew'' 10) MR_EVENT_CHAT_MODIFIED 10 0"
    and g: "m_cb_log (snd (lookup_group_by_grpid_locked example_env example_mailbox ?fl
              True True 10 [])) =
            m_cb_log example_mailbox @
              [\<lparr>cb_event = MR_EVENT_CHAT_MODIFIED, cb_data1 = 10, cb_data2 = 0,
                cb_locked = m_locked example_mailbox,
                cb_in_transaction = (m_transaction example_mailbox \<noteq> None)\<rparr>]"
    by blast+
  show ?thesis
    unfolding g unfolding s c lk tx lg by simp
qed

text \<open>
  The claim as the spec states it fails: a group name of exactly 200 characters is not
  taken. The chat keeps its name and the callback is not called.
\<close>

theorem grp_name_of_200_characters_refused:
  "length (replicate 200 (CHR ''n'')) = 200 \<and>
   map c_name (chats (m_sql example_mailbox)) = [''Team''] \<and>
   snd (lookup_group_by_grpid_locked example_env example_mailbox
      [optional_field ''Chat-Group-ID'' ''abcdefghij1'',
       optional_field ''Chat-Group-Name'' (replicate 200 (CHR ''n'')),
       optional_field ''Chat-Group-Name-Changed'' ''1''] True True 10 []) = example_mailbox"
  by code_simp

text \<open>
  Claim C5. Let the header give the group id \<open>grpid\<close>, and let the resolver recreate
  the member list of chat \<open>cid\<close>: either no chat had \<open>grpid\<close>, the creation test held
  and \<open>cid\<close> is the row id of the chat just inserted, or \<open>cid\<close> is the chat that has
  \<open>grpid\<close>, the sender is a member of it and an Added or a Removed header is there (in
  both cases \<open>cid\<close> is above the special ids). Then afterwards a contact \<open>y\<close> is a
  member of \<open>cid\<close> exactly when it is SELF and the configured address is not the Removed
  address, or it is \<open>from_id\<close>, above \<^verbatim>\<open>MR_CONTACT_ID_LAST_SPECIAL\<close>, with an address
  that is neither the configured one nor the Removed one, or it is in \<open>to_list\<close> with
  such an address. No earlier member stays on other grounds: the list was cleared first.
\<close>

theorem grp_member_list_recreated:
  fixes E :: mr_env and fl :: "mailimf_field option list" and mb :: mrmailbox
    and sbm create :: bool and from_id :: nat and to_list :: "nat list"
  defines "g \<equiv> grp_walk E fl"
  defines "res \<equiv> lookup_group_by_grpid_locked E mb fl sbm create from_id to_list"
  defines "self_addr \<equiv> mrsqlite3_get_config_locked (m_sql mb) ''configured_addr'' []"
  defines "skip \<equiv> X_MrRemoveFromGrp g"
  assumes gid: "grp_grpid g = Some grpid"
    and recreate:
      "(select_chat_by_grpid mb grpid = 0 \<and>
        grp_may_create g create (mrmailbox_group_explicitly_left_locked mb grpid) self_addr \<and>
        cid = new_rowid (map c_id (chats (m_sql mb))) \<and> cid > MR_CHAT_ID_LAST_SPECIAL E) \<or>
       (select_chat_by_grpid mb grpid = cid \<and> cid > MR_CHAT_ID_LAST_SPECIAL E \<and>
        mrmailbox_is_contact_in_chat_locked mb cid from_id \<and>
        (X_MrAddToGrp g \<noteq> None \<or> X_MrRemoveFromGrp g \<noteq> None))"
  shows "mrmailbox_is_contact_in_chat_locked (snd res) cid y \<longleftrightarrow>
         (y = MR_CONTACT_ID_SELF E \<and>
            (case skip of None \<Rightarrow> True | Some s \<Rightarrow> \<not> strcasecmp_eq self_addr s)) \<or>
         (y = from_id \<and> from_id > MR_CONTACT_ID_LAST_SPECIAL E \<and>
            grp_keeps mb self_addr skip from_id) \<or>
         (y \<in> set to_list \<and> grp_keeps mb self_addr skip y)"
proof -
  have res: "res = grp_lookup E mb sbm g grpid create from_id to_list"
    unfolding res_def g_def using gid [unfolded g_def] by (rule lookup_group_grpid)
  consider
    (created) "select_chat_by_grpid mb grpid = 0"
      "grp_may_create g create (mrmailbox_group_explicitly_left_locked mb grpid) self_addr"
      "cid = new_rowid (map c_id (chats (m_sql mb)))" "cid > MR_CHAT_ID_LAST_SPECIAL E"
  | (existing) "select_chat_by_grpid mb grpid = cid" "cid > MR_CHAT_ID_LAST_SPECIAL E"
      "mrmailbox_is_contact_in_chat_locked mb cid from_id"
      "X_MrAddToGrp g \<noteq> None \<or> X_MrRemoveFromGrp g \<noteq> None"
    using recreate by (elim disjE conjE) auto
  then show ?thesis
  proof cases
    case created
    let ?m1 = "mb\<lparr>m_sql := (m_sql mb)\<lparr>chats := chats (m_sql mb) @
           [\<lparr>c_id = cid, c_type = MR_CHAT_GROUP, c_name = the (grpname g), c_grpid = grpid\<rparr>]\<rparr>\<rparr>"
    have "res = (if new_rowid (map c_id (chats (m_sql mb))) \<le> MR_CHAT_ID_LAST_SPECIAL E
          then (if mrmailbox_group_explicitly_left_locked mb grpid then MR_CHAT_ID_TRASH E else 0,
                mb\<lparr>m_sql := (m_sql mb)\<lparr>chats := chats (m_sql mb) @
                  [\<lparr>c_id = new_rowid (map c_id (chats (m_sql mb))), c_type = MR_CHAT_GROUP,
                    c_name = the (grpname g), c_grpid = grpid\<rparr>]\<rparr>\<rparr>)
          else grp_commands E (mb\<lparr>m_sql := (m_sql mb)\<lparr>chats := chats (m_sql mb) @
                  [\<lparr>c_id = new_rowid (map c_id (chats (m_sql mb))), c_type = MR_CHAT_GROUP,
                    c_name = the (grpname g), c_grpid = grpid\<rparr>]\<rparr>\<rparr>) sbm g
                 (mrsqlite3_get_config_locked (m_sql mb) ''configured_addr'' [])
                 (new_rowid (map c_id (chats (m_sql mb)))) True from_id to_list)"
      unfolding res by (rule grp_lookup_create [OF created(1) created(2) [unfolded self_addr_def]])
    then have r: "res = grp_commands E ?m1 sbm g self_addr cid True from_id to_list"
      using created(4) unfolding created(3) self_addr_def by simp
    have k: "grp_keeps ?m1 self_addr (X_MrRemoveFromGrp g) x =
             grp_keeps mb self_addr (X_MrRemoveFromGrp g) x" for x
      by (rule grp_keeps_cong) simp
    have "mrmailbox_is_contact_in_chat_locked
            (snd (grp_commands E ?m1 sbm g self_addr cid True from_id to_list)) cid y \<longleftrightarrow>
          (y = MR_CONTACT_ID_SELF E \<and>
            (case X_MrRemoveFromGrp g of None \<Rightarrow> True | Some s \<Rightarrow> \<not> strcasecmp_eq self_addr s)) \<or>
          (y = from_id \<and> from_id > MR_CONTACT_ID_LAST_SPECIAL E \<and>
            grp_keeps ?m1 self_addr (X_MrRemoveFromGrp g) from_id) \<or>
          (y \<in> set to_list \<and> grp_keeps ?m1 self_addr (X_MrRemoveFromGrp g) y)"
      by (rule grp_commands_in_chat) simp
    then show ?thesis unfolding r skip_def k .
  next
    case existing
    have r: "res = grp_commands E mb sbm g self_addr cid False from_id to_list"
      unfolding res self_addr_def by (rule grp_lookup_existing [OF existing(1,2,3)])
    have "mrmailbox_is_contact_in_chat_locked
            (snd (grp_commands E mb sbm g self_addr cid False from_id to_list)) cid y \<longleftrightarrow>
          (y = MR_CONTACT_ID_SELF E \<and>
            (case X_MrRemoveFromGrp g of None \<Rightarrow> True | Some s \<Rightarrow> \<not> strcasecmp_eq self_addr s)) \<or>
          (y = from_id \<and> from_id > MR_CONTACT_ID_LAST_SPECIAL E \<and>
            grp_keeps mb self_addr (X_MrRemoveFromGrp g) from_id) \<or>
          (y \<in> set to_list \<and> grp_keeps mb self_addr (X_MrRemoveFromGrp g) y)"
      by (rule grp_commands_in_chat) (use existing(4) in simp)
    then show ?thesis unfolding r skip_def .
  qed
qed

theorem grp_member_list_recreated_witness:
  "mrmailbox_is_contact_in_chat_locked example_mailbox 10 10 \<and>
   mrmailbox_is_contact_in_chat_locked (snd (lookup_group_by_grpid_locked example_env example_mailbox
      [optional_field ''Chat-Group-ID'' ''abcdefghij1'',
       optional_field ''Chat-Group-Member-Removed'' ''bob@example.org''] True True 10 [11, 12]))
      10 1 \<and>
   mrmailbox_is_contact_in_chat_locked (snd (lookup_group_by_grpid_locked example_env example_mailbox
      [optional_field ''Chat-Group-ID'' ''abcdefghij1'',
       optional_field ''Chat-Group-Member-Removed'' ''bob@example.org''] True True 10 [11, 12]))
      10 10 \<and>
   \<not> mrmailbox_is_contact_in_chat_locked (snd (lookup_group_by_grpid_locked example_env example_mailbox
      [optional_field ''Chat-Group-ID'' ''abcdefghij1'',
       optional_field ''Chat-Group-Member-Removed'' ''bob@example.org''] True True 10 [11, 12]))
      10 11 \<and>
   mrmailbox_is_contact_in_chat_locked (snd (lookup_group_by_grpid_locked example_env example_mailbox
      [optional_field ''Chat-Group-ID'' ''abcdefghij1'',
       optional_field ''Chat-Group-Member-Removed'' ''bob@example.org''] True True 10 [11, 12]))
      10 12"
proof -
  let ?fl = "[optional_field ''Chat-Group-ID'' ''abcdefghij1'',
              optional_field ''Chat-Group-Member-Removed'' ''bob@example.org'']"
  let ?g = "grp_walk example_env ?fl"
  let ?self = "mrsqlite3_get_config_locked (m_sql example_mailbox) ''configured_addr'' []"
  let ?rhs = "\<lambda>y. (y = MR_CONTACT_ID_SELF example_env \<and>
            (case X_MrRemoveFromGrp ?g of None \<Rightarrow> True | Some s \<Rightarrow> \<not> strcasecmp_eq ?self s)) \<or>
         (y = 10 \<and> 10 > MR_CONTACT_ID_LAST_SPECIAL example_env \<and>
            grp_keeps example_mailbox ?self (X_MrRemoveFromGrp ?g) 10) \<or>
         (y \<in> set [11, 12] \<and> grp_keeps example_mailbox ?self (X_MrRemoveFromGrp ?g) y)"
  have gid: "grp_grpid ?g = Some ''abcdefghij1''" by code_simp
  have cid: "select_chat_by_grpid example_mailbox ''abcdefghij1'' = 10" by code_simp
  have hi: "10 > MR_CHAT_ID_LAST_SPECIAL example_env" by code_simp
  have mem: "mrmailbox_is_contact_in_chat_locked example_mailbox 10 10" by code_simp
  have rm: "X_MrRemoveFromGrp ?g \<noteq> None" by code_simp
  have r1: "?rhs 1" by code_simp
  have r10: "?rhs 10" by code_simp
  have r11: "\<not> ?rhs 11" by code_simp
  have r12: "?rhs 12" by code_simp
  have recreate:
      "(select_chat_by_grpid example_mailbox ''abcdefghij1'' = 0 \<and>
        grp_may_create ?g True
          (mrmailbox_group_explicitly_left_locked example_mailbox ''abcdefghij1'') ?self \<and>
        10 = new_rowid (map c_id (chats (m_sql example_mailbox))) \<and>
        10 > MR_CHAT_ID_LAST_SPECIAL example_env) \<or>
       (select_chat_by_grpid example_mailbox ''abcdefghij1'' = 10 \<and>
        10 > MR_CHAT_ID_LAST_SPECIAL example_env \<and>
        mrmailbox_is_contact_in_chat_locked example_mailbox 10 10 \<and>
        (X_MrAddToGrp ?g \<noteq> None \<or> X_MrRemoveFromGrp ?g \<noteq> None))"
    using cid hi mem rm by (intro disjI2 conjI)
  note t = grp_member_list_recreated [where E = example_env and fl = ?fl
      and mb = example_mailbox and create = True and sbm = True and from_id = 10
      and to_list = "[11, 12]" and cid = 10, OF gid recreate]
  from t [where y = 1] r1 have 1: "mrmailbox_is_contact_in_chat_locked
      (snd (lookup_group_by_grpid_locked example_env example_mailbox ?fl True True 10 [11, 12])) 10 1"
    by (rule iffD2)
  from t [where y = 10] r10 have 2: "mrmailbox_is_contact_in_chat_locked
      (snd (lookup_group_by_grpid_locked example_env example_mailbox ?fl True True 10 [11, 12])) 10 10"
    by (rule iffD2)
  from t [where y = 11] r11 have 3: "\<not> mrmailbox_is_contact_in_chat_locked
      (snd (lookup_group_by_grpid_locked example_env example_mailbox ?fl True True 10 [11, 12])) 10 11"
    by (metis)
  from t [where y = 12] r12 have 4: "mrmailbox_is_contact_in_chat_locked
      (snd (lookup_group_by_grpid_locked example_env example_mailbox ?fl True True 10 [11, 12])) 10 12"
    by (rule iffD2)
  from mem 1 2 3 4 show ?thesis by (intro conjI)
qed

section \<open>Properties of the ingestion\<close>

lemma ev_queues_direction [simp]: "ev_queues (imf_direction fl l) = ev_queues l"
  by (simp add: ev_queues_def imf_direction_def Let_def)

lemma ev_queues_from [simp]: "ev_queues (imf_from E fl l) = ev_queues l"
  by (simp add: ev_queues_def imf_from_def Let_def
           split: option.splits mailimf_field.splits list.splits prod.splits)

lemma ev_queues_to [simp]: "ev_queues (imf_to E fl l) = ev_queues l"
  by (simp add: ev_queues_def imf_to_def Let_def
           split: option.splits mailimf_field.splits list.splits prod.splits)

lemma ev_queues_collect_field [simp]: "ev_queues (imf_collect_field E f l) = ev_queues l"
  by (cases "(E, f, l)" rule: imf_collect_field.cases)
     (simp_all add: ev_queues_def Let_def split: prod.splits)

lemma ev_queues_collect [simp]: "ev_queues (fold (imf_collect_field E) fl l) = ev_queues l"
  by (induction fl arbitrary: l) simp_all

lemma ev_queues_chat_incoming [simp]:
  "ev_queues (imf_chat_incoming E p fl flags l) = ev_queues l"
  by (simp add: ev_queues_def imf_chat_incoming_def Let_def split: prod.splits)

lemma ev_queues_chat_outgoing [simp]:
  "ev_queues (imf_chat_outgoing E p fl l) = ev_queues l"
  by (simp add: ev_queues_def imf_chat_outgoing_def Let_def split: prod.splits list.splits)


























text \<open>
  Claim C6, at an input where the code does not do what the claim says. The message has a
  Return-Path, and its From: holds two mailboxes, the configured address and Alice's. With
  the configured address first the message stays incoming, because the call for the last
  mailbox resets \<^verbatim>\<open>*check_self\<close>; with the configured address last it is taken as
  outgoing.
\<close>

theorem receive_imf_from_self_not_last:
  "l_incoming (receive_imf_body example_env example_mailbox
      (example_from_msg [''me@example.org'', ''alice@example.org'']) ''INBOX'' 8 0) \<and>
   \<not> l_incoming (receive_imf_body example_env example_mailbox
      (example_from_msg [''alice@example.org'', ''me@example.org'']) ''INBOX'' 8 0)"
  by code_simp

theorem receive_imf_from_self_not_last_witness:
  "l_incoming (receive_imf_body example_env example_mailbox
      (example_from_msg [''me@example.org'', ''alice@example.org'']) ''INBOX'' 8 0)"
  using receive_imf_from_self_not_last by (rule conjunct1)

text \<open>
  Claim C8, at an input where the code does not do what the claim says. The renaming
  message is received twice with the same folder and uid. The second call leaves the
  tables as the first call left them, but it calls the callback once more: the group
  resolver runs before the test for a known message id and reports CHAT\_MODIFIED for a
  rename that the rollback then undoes.
\<close>

theorem receive_imf_twice_chat_modified:
  "m_sql (receive_imf example_env
            (receive_imf example_env example_mailbox example_rename_msg ''INBOX'' 7 0)
            example_rename_msg ''INBOX'' 7 0) =
   m_sql (receive_imf example_env example_mailbox example_rename_msg ''INBOX'' 7 0) \<and>
   m_cb_log (receive_imf example_env
            (receive_imf example_env example_mailbox example_rename_msg ''INBOX'' 7 0)
            example_rename_msg ''INBOX'' 7 0) =
   m_cb_log (receive_imf example_env example_mailbox example_rename_msg ''INBOX'' 7 0) @
     [\<lparr>cb_event = MR_EVENT_CHAT_MODIFIED, cb_data1 = 10, cb_data2 = 0,
       cb_locked = True, cb_in_transaction = True\<rparr>]"
  by code_simp

theorem receive_imf_twice_chat_modified_witness:
  "m_cb_log (receive_imf example_env
            (receive_imf example_env example_mailbox example_rename_msg ''INBOX'' 7 0)
            example_rename_msg ''INBOX'' 7 0) \<noteq>
   m_cb_log (receive_imf example_env example_mailbox example_rename_msg ''INBOX'' 7 0)"
  using receive_imf_twice_chat_modified by simp

text \<open>
  Claim C9, at an input where the code does not do what the claim says. For the renaming
  message the first call of the callback is the CHAT\_MODIFIED of the group resolver, made
  with the database locked and the transaction of \<^verbatim>\<open>receive_imf\<close> open; the
  INCOMING\_MSG for the created row follows after commit and unlock.
\<close>

theorem receive_imf_chat_modified_in_transaction:
  "m_cb_log (receive_imf example_env example_mailbox example_rename_msg ''INBOX'' 7 0) =
     [\<lparr>cb_event = MR_EVENT_CHAT_MODIFIED, cb_data1 = 10, cb_data2 = 0,
       cb_locked = True, cb_in_transaction = True\<rparr>,
      \<lparr>cb_event = MR_EVENT_INCOMING_MSG, cb_data1 = 10, cb_data2 = 1,
       cb_locked = False, cb_in_transaction = False\<rparr>]"
  by code_simp

theorem receive_imf_chat_modified_in_transaction_witness:
  "cb_in_transaction
     (hd (m_cb_log (receive_imf example_env example_mailbox example_rename_msg ''INBOX'' 7 0)))"
  using receive_imf_chat_modified_in_transaction by simp

section \<open>Properties of the wake lock\<close>

lemma wake_run_Some: "\<exists>m'. wake_run cs (Some m) = Some m'"
proof (induction cs arbitrary: m)
  case Nil
  show ?case by simp
next
  case (Cons c cs)
  show ?case
    by (cases c) (simp_all add: mrmailbox_wake_lock_def mrmailbox_wake_unlock_def Let_def Cons.IH)
qed

text \<open>
  Claim C10. After any sequence of \<^verbatim>\<open>mrmailbox_wake_lock\<close> and
  \<^verbatim>\<open>mrmailbox_wake_unlock\<close> calls on a non-NULL mailbox, the mailbox is still there, and
  from the state \<open>m'\<close> reached: a further \<^verbatim>\<open>wake_lock\<close> adds one to the counter and
  calls the callback with WAKE\_LOCK(1) exactly when the counter was 0 (it goes from 0 to
  1), and with nothing else; a further \<^verbatim>\<open>wake_unlock\<close> subtracts one and calls the
  callback with WAKE\_LOCK(0) exactly when the counter was 1 at entry. The counter is not
  clamped: from 0, \<^verbatim>\<open>wake_unlock\<close> leaves it at -1, and the \<^verbatim>\<open>wake_lock\<close> after that
  makes no call of the callback.
\<close>

theorem wake_lock_counter_events:
  "\<exists>m' l u lu.
     wake_run cs (Some m) = Some m' \<and>
     mrmailbox_wake_lock (Some m') = Some l \<and>
     mrmailbox_wake_unlock (Some m') = Some u \<and>
     mrmailbox_wake_lock (Some u) = Some lu \<and>
     m_wake_lock l = m_wake_lock m' + 1 \<and>
     wake_cb l = wake_cb m' @ (if m_wake_lock m' = 0 then [wake_event 1] else []) \<and>
     m_wake_lock u = m_wake_lock m' - 1 \<and>
     wake_cb u = wake_cb m' @ (if m_wake_lock m' = 1 then [wake_event 0] else []) \<and>
     (m_wake_lock m' = 0 \<longrightarrow> sint (m_wake_lock u) = - 1 \<and> wake_cb u = wake_cb m' \<and>
        m_wake_lock lu = 0 \<and> wake_cb lu = wake_cb m')"
proof -
  obtain m' where run: "wake_run cs (Some m) = Some m'"
    using wake_run_Some by blast
  show ?thesis
    unfolding run
    by (simp add: mrmailbox_wake_lock_def mrmailbox_wake_unlock_def Let_def)
qed

theorem wake_lock_counter_events_witness:
  "\<exists>m' u lu.
     wake_run [Wake_Unlock] (Some \<lparr>m_wake_lock = 1, wake_cb = []\<rparr>) = Some m' \<and>
     m_wake_lock m' = 0 \<and>
     mrmailbox_wake_unlock (Some m') = Some u \<and> sint (m_wake_lock u) = - 1 \<and>
     mrmailbox_wake_lock (Some u) = Some lu \<and> wake_cb lu = wake_cb m'"
  using wake_lock_counter_events [of "[Wake_Unlock]" "\<lparr>m_wake_lock = 1, wake_cb = []\<rparr>"]
  by (auto simp add: mrmailbox_wake_unlock_def)

end
